theory Spec2Isabelle
  imports Main "HOL-Library.List_Lexorder"
begin

section \<open>The alert service of the backend (services/alert/index.ts)\<close>

text \<open>
  A shallow embedding of \<^verbatim>\<open>AlertService\<close>. The repository is a list of alert rows,
  exceptions are values of the type \<open>error\<close>, and every function that mutates an object
  of its caller returns the object as it is afterwards.

  The texts the service only compares, concatenates or matches against ASCII words are
  ASCII text (\<open>string\<close>). The resolution message, whose characters
  \<^verbatim>\<open>String.prototype.trim\<close> classifies, is the list of its UTF-16 code units
  (\<open>codeUnits\<close>). Arguments have the values their TypeScript
  types declare, and \<^verbatim>\<open>null\<close> or \<^verbatim>\<open>undefined\<close> (\<open>None\<close>) where the service itself tests
  for it. The exceptions modelled are those of the service (conflict, internal error),
  the dereference of a missing alert, a lookup or update the database connection
  rejects, and a failure of a parser.
\<close>

subsection \<open>Enumerations and entities\<close>

text \<open>
  Modelled from the spec: the enumerations of \<^verbatim>\<open>@common/enums\<close>, the entities of
  \<^verbatim>\<open>models\<close> and the parameter types of \<^verbatim>\<open>@common/types\<close>, whose declarations are not
  among the sources. Each enumeration carries the members the service names, and each
  record the fields the service reads or writes. The risk score is the integer severity
  of the specification, and the time stamps are integers.
\<close>

datatype Status = OPEN | IGNORED | RESOLVED

text \<open>
  A string of the language as the list of its UTF-16 code units (numbers below 65536;
  nothing depends on the bound).
\<close>

type_synonym codeUnits = "nat list"

text \<open>
  \<open>UNKNOWN_UPDATE_TYPE\<close> stands for every value outside the enumeration that reaches the
  \<^verbatim>\<open>default\<close> branch of the switch in \<^verbatim>\<open>updateAlert\<close>.
\<close>

datatype UpdateAlertType = IGNORE | UNIGNORE | RESOLVE | UNRESOLVE | UNKNOWN_UPDATE_TYPE string

datatype AlertType =
    NEW_ENDPOINT
  | OPEN_API_SPEC_DIFF
  | PII_DATA_DETECTED
  | QUERY_SENSITIVE_DATA
  | PATH_SENSITIVE_DATA
  | BASIC_AUTHENTICATION_DETECTED
  | UNSECURED_ENDPOINT_DETECTED

datatype DataSection = REQUEST_PATH | REQUEST_QUERY | REQUEST_HEADER | OTHER_SECTION string

datatype SpecExtension = JSON | YAML | OTHER_EXTENSION string

datatype direction = ASC | DESC

datatype error =
    Error409Conflict string
  | Error500InternalServer string
  | TypeError string
  | QueryFailedError string
  | ParseError string

record Meta =
  header_name :: string
  header_value :: string

record ApiTrace =
  trace_host :: string
  trace_path :: string
  requestHeaders :: "Meta list option"

record ApiEndpoint =
  endpoint_uuid :: string
  endpoint_path :: string
  endpoint_host :: string

text \<open>
  The \<^verbatim>\<open>context\<close> payloads the service builds: \<^verbatim>\<open>{trace}\<close>,
  \<^verbatim>\<open>{trace, pathTokenIdx}\<close>, \<^verbatim>\<open>{pathPointer, trace}\<close> and
  \<^verbatim>\<open>{tested_against, trace}\<close>.
\<close>

datatype AlertContext =
    NoContext
  | TraceContext "ApiTrace option"
  | PathTokenContext "ApiTrace option" "nat option"
  | PathPointerContext "string list" "ApiTrace option"
  | TestedAgainstContext string ApiTrace

record UpdateAlertParams =
  updateType :: UpdateAlertType
  resolutionMessage_param :: "codeUnits option"

record Alert =
  uuid :: string
  type :: AlertType
  riskScore :: int
  status :: Status
  description :: string
  alert_context :: AlertContext
  resolutionMessage :: "codeUnits option"
  apiEndpointUuid :: string
  apiEndpoint :: "ApiEndpoint option"
  createdAt :: int
  updatedAt :: int

subsection \<open>Strings\<close>

text \<open>
  The code units \<^verbatim>\<open>String.prototype.trim\<close> removes from both ends: the white space of
  the language (tab U+0009, vertical tab U+000B, form feed U+000C, the byte order mark
  U+FEFF and the space separators U+0020, U+00A0, U+1680, U+2000 to U+200A, U+202F,
  U+205F, U+3000) and its line terminators (U+000A, U+000D, U+2028, U+2029). All of
  them are single code units.
\<close>

definition isWhitespace :: "nat \<Rightarrow> bool" where
  "isWhitespace c =
     (c \<in> {0x0009, 0x000A, 0x000B, 0x000C, 0x000D, 0x0020, 0x00A0, 0x1680, 0x2028, 0x2029,
            0x202F, 0x205F, 0x3000, 0xFEFF} \<or> (0x2000 \<le> c \<and> c \<le> 0x200A))"

definition trim :: "codeUnits \<Rightarrow> codeUnits" where
  "trim s = rev (dropWhile isWhitespace (rev (dropWhile isWhitespace s)))"

text \<open>\<^verbatim>\<open>v || null\<close> for a string or undefined \<open>v\<close>: the empty string is falsy.\<close>

definition orNull :: "codeUnits option \<Rightarrow> codeUnits option" where
  "orNull v = (case v of None \<Rightarrow> None | Some s \<Rightarrow> if s = [] then None else Some s)"

text \<open>The code units of an ASCII text, for the examples.\<close>

definition utf16 :: "string \<Rightarrow> codeUnits" where
  "utf16 s = map of_char s"

subsection \<open>updateAlert\<close>

definition findOne :: "Alert list \<Rightarrow> string \<Rightarrow> Alert option" where
  "findOne rows alertId = find (\<lambda>a. uuid a = alertId) rows"

text \<open>\<^verbatim>\<open>alertRepository.update({ uuid: alertId }, alert)\<close>: every row of that id takes the entity's values.\<close>

definition update_rows :: "Alert list \<Rightarrow> string \<Rightarrow> Alert \<Rightarrow> Alert list" where
  "update_rows rows alertId alert = map (\<lambda>a. if uuid a = alertId then alert else a) rows"

text \<open>
  The switch of \<^verbatim>\<open>updateAlert\<close>, on the result of the lookup (\<open>None\<close> is \<^verbatim>\<open>null\<close>).
  Reading \<^verbatim>\<open>alert.status\<close> of \<^verbatim>\<open>null\<close> raises a TypeError; the \<^verbatim>\<open>default\<close>
  branch reads nothing of the alert.
\<close>

definition switch_updateType :: "Alert option \<Rightarrow> UpdateAlertParams \<Rightarrow> error + Alert" where
  "switch_updateType alert updateAlertParams =
     (case updateType updateAlertParams of
        IGNORE \<Rightarrow>
          (case alert of
             None \<Rightarrow> Inl (TypeError ''alert.status'')
           | Some a \<Rightarrow>
               if status a = IGNORED then Inl (Error409Conflict ''Alert is already being ignored.'')
               else if status a = RESOLVED
                 then Inl (Error409Conflict ''Alert is resolved and cannot be ignored.'')
               else Inr (a\<lparr>status := IGNORED\<rparr>))
      | UNIGNORE \<Rightarrow>
          (case alert of
             None \<Rightarrow> Inl (TypeError ''alert.status'')
           | Some a \<Rightarrow>
               if status a \<noteq> IGNORED then Inl (Error409Conflict ''Alert is currently not ignored.'')
               else Inr (a\<lparr>status := OPEN\<rparr>))
      | RESOLVE \<Rightarrow>
          (case alert of
             None \<Rightarrow> Inl (TypeError ''alert.status'')
           | Some a \<Rightarrow>
               if status a = RESOLVED then Inl (Error409Conflict ''Alert is already resolved.'')
               else if status a = IGNORED
                 then Inl (Error409Conflict ''Alert is ignored and cannot be resolved.'')
               else Inr (a\<lparr>status := RESOLVED,
                          resolutionMessage :=
                            orNull (map_option trim (resolutionMessage_param updateAlertParams))\<rparr>))
      | UNRESOLVE \<Rightarrow>
          (case alert of
             None \<Rightarrow> Inl (TypeError ''alert.status'')
           | Some a \<Rightarrow>
               if status a \<noteq> RESOLVED then Inl (Error409Conflict ''Alert is currently not resolved.'')
               else Inr (a\<lparr>status := OPEN\<rparr>))
      | UNKNOWN_UPDATE_TYPE v \<Rightarrow> Inl (Error500InternalServer ''Unknown update type.''))"

text \<open>
  \<open>updateAlert rows alertId params\<close> is the result of the call (the exception raised, or
  the alert returned) and the rows of the repository afterwards: an exception leaves
  before \<^verbatim>\<open>alertRepository.update\<close> runs.
\<close>

definition updateAlert :: "Alert list \<Rightarrow> string \<Rightarrow> UpdateAlertParams \<Rightarrow> (error + Alert) \<times> Alert list" where
  "updateAlert rows alertId updateAlertParams =
     (let alert = findOne rows alertId in
      case switch_updateType alert updateAlertParams of
        Inl e \<Rightarrow> (Inl e, rows)
      | Inr a \<Rightarrow> (Inr a, update_rows rows alertId a))"

text \<open>The invariant of the data model: a resolution message only on a resolved alert.\<close>

definition message_only_when_resolved :: "Alert \<Rightarrow> bool" where
  "message_only_when_resolved a = (resolutionMessage a = None \<or> status a = RESOLVED)"

text \<open>"The trimmed input or null", as the lifecycle table words it.\<close>

definition trimmed_or_null :: "codeUnits option \<Rightarrow> codeUnits option" where
  "trimmed_or_null m =
     (case m of None \<Rightarrow> None | Some s \<Rightarrow> if trim s = [] then None else Some (trim s))"

text \<open>Example rows.\<close>

definition alert_row :: "string \<Rightarrow> Status \<Rightarrow> codeUnits option \<Rightarrow> Alert" where
  "alert_row u s m =
     \<lparr>uuid = u, type = NEW_ENDPOINT, riskScore = 1, status = s, description = ''d'',
      alert_context = NoContext, resolutionMessage = m, apiEndpointUuid = ''e1'',
      apiEndpoint = None, createdAt = 0, updatedAt = 0\<rparr>"

definition three_rows :: "Alert list" where
  "three_rows =
     [alert_row ''a1'' OPEN None, alert_row ''a2'' IGNORED None,
      alert_row ''a3'' RESOLVED (Some (utf16 ''done''))]"

subsection \<open>getAlerts\<close>

text \<open>
  Modelled from the spec: the request \<^verbatim>\<open>GetAlertParams\<close> of \<^verbatim>\<open>@common/types\<close>, with the
  fields \<^verbatim>\<open>getAlerts\<close> reads; an absent field is \<open>None\<close>. The fields carry the prefix
  \<open>q_\<close>, since the alert has fields of the same names.
\<close>

record GetAlertParams =
  q_apiEndpointUuid :: "string option"
  q_alertTypes :: "AlertType list option"
  q_riskScores :: "int list option"
  q_hosts :: "string list option"
  q_status :: "Status list option"
  q_offset :: "nat option"
  q_limit :: "nat option"
  q_order :: "direction option"

text \<open>
  The \<^verbatim>\<open>order\<close> option of the query is an object whose keys are inserted in the order
  \<^verbatim>\<open>status\<close>, \<^verbatim>\<open>riskScore\<close> (the spread of \<^verbatim>\<open>orderParams\<close>), \<^verbatim>\<open>createdAt\<close>. It is
  modelled by the list of its entries in that order.
\<close>

datatype OrderColumn = ORDER_status | ORDER_riskScore | ORDER_createdAt

text \<open>\<^verbatim>\<open>alertParams?.field\<close>: undefined when the request itself is null.\<close>

definition optional_chain :: "'p option \<Rightarrow> ('p \<Rightarrow> 'a option) \<Rightarrow> 'a option" where
  "optional_chain alertParams field = (case alertParams of None \<Rightarrow> None | Some p \<Rightarrow> field p)"

text \<open>
  The conditions are added for truthy fields only: a non-empty string, any array (an
  empty one too, whose \<^verbatim>\<open>In([])\<close> matches no row), a non-zero number.
\<close>

definition whereConditions :: "GetAlertParams option \<Rightarrow> Alert \<Rightarrow> bool" where
  "whereConditions alertParams a =
     ((case optional_chain alertParams q_apiEndpointUuid of
         Some u \<Rightarrow> u = [] \<or> apiEndpointUuid a = u
       | None \<Rightarrow> True) \<and>
      (case optional_chain alertParams q_alertTypes of
         Some ts \<Rightarrow> type a \<in> set ts
       | None \<Rightarrow> True) \<and>
      (case optional_chain alertParams q_riskScores of
         Some rs \<Rightarrow> riskScore a \<in> set rs
       | None \<Rightarrow> True) \<and>
      (case optional_chain alertParams q_hosts of
         Some hs \<Rightarrow> (case apiEndpoint a of Some e \<Rightarrow> endpoint_host e \<in> set hs | None \<Rightarrow> False)
       | None \<Rightarrow> True) \<and>
      (case optional_chain alertParams q_status of
         Some ss \<Rightarrow> status a \<in> set ss
       | None \<Rightarrow> True))"

definition skip_of :: "GetAlertParams option \<Rightarrow> nat" where
  "skip_of alertParams = (case optional_chain alertParams q_offset of Some n \<Rightarrow> n | None \<Rightarrow> 0)"

definition take_of :: "GetAlertParams option \<Rightarrow> nat option" where
  "take_of alertParams =
     (case optional_chain alertParams q_limit of
        Some n \<Rightarrow> if n = 0 then None else Some n
      | None \<Rightarrow> None)"

definition orderParams :: "GetAlertParams option \<Rightarrow> (OrderColumn \<times> direction) list" where
  "orderParams alertParams =
     (case optional_chain alertParams q_order of
        Some d \<Rightarrow> [(ORDER_riskScore, d)]
      | None \<Rightarrow> [(ORDER_riskScore, DESC)])"

definition order_clause :: "GetAlertParams option \<Rightarrow> (OrderColumn \<times> direction) list" where
  "order_clause alertParams = [(ORDER_status, DESC)] @ orderParams alertParams @ [(ORDER_createdAt, DESC)]"

text \<open>
  Modelled from the spec: the listing of the repository (\<^verbatim>\<open>findAndCount\<close>), which runs
  in the object-relational mapper and the database. It keeps the rows that satisfy the
  conditions, orders them by the entries of the order clause, the first entry first
  (\<open>sort_key\<close> on the list of column values, compared lexicographically; descending
  columns negated), skips, takes, and counts the matching rows. The order the database
  gives the status column is the parameter \<open>status_order\<close>.
\<close>

definition column_value :: "(Status \<Rightarrow> int) \<Rightarrow> OrderColumn \<Rightarrow> Alert \<Rightarrow> int" where
  "column_value status_order c a =
     (case c of
        ORDER_status \<Rightarrow> status_order (status a)
      | ORDER_riskScore \<Rightarrow> riskScore a
      | ORDER_createdAt \<Rightarrow> createdAt a)"

definition order_key :: "(Status \<Rightarrow> int) \<Rightarrow> (OrderColumn \<times> direction) list \<Rightarrow> Alert \<Rightarrow> int list" where
  "order_key status_order clause a =
     map (\<lambda>(c, d). case d of ASC \<Rightarrow> column_value status_order c a
                            | DESC \<Rightarrow> - column_value status_order c a) clause"

definition findAndCount ::
  "(Status \<Rightarrow> int) \<Rightarrow> Alert list \<Rightarrow> (Alert \<Rightarrow> bool) \<Rightarrow> nat \<Rightarrow> nat option \<Rightarrow>
   (OrderColumn \<times> direction) list \<Rightarrow> Alert list \<times> nat" where
  "findAndCount status_order rows wh skip tk clause =
     (let matching = filter wh rows;
          ordered = sort_key (order_key status_order clause) matching;
          skipped = drop skip ordered
      in ((case tk of None \<Rightarrow> skipped | Some n \<Rightarrow> take n skipped), length matching))"

definition getAlerts :: "(Status \<Rightarrow> int) \<Rightarrow> Alert list \<Rightarrow> GetAlertParams option \<Rightarrow> Alert list \<times> nat" where
  "getAlerts status_order rows alertParams =
     findAndCount status_order rows (whereConditions alertParams) (skip_of alertParams)
       (take_of alertParams) (order_clause alertParams)"

text \<open>The direction the caller asked for, descending when none was given.\<close>

definition requested_order :: "GetAlertParams option \<Rightarrow> direction" where
  "requested_order alertParams =
     (case alertParams of None \<Rightarrow> DESC | Some p \<Rightarrow> (case q_order p of None \<Rightarrow> DESC | Some d \<Rightarrow> d))"

definition in_direction :: "direction \<Rightarrow> int \<Rightarrow> int \<Rightarrow> bool" where
  "in_direction d x y = (case d of ASC \<Rightarrow> x \<le> y | DESC \<Rightarrow> y \<le> x)"

text \<open>Two orders of the status column, for the examples.\<close>

definition open_first :: "Status \<Rightarrow> int" where
  "open_first s = (case s of RESOLVED \<Rightarrow> 0 | IGNORED \<Rightarrow> 1 | OPEN \<Rightarrow> 2)"

definition open_last :: "Status \<Rightarrow> int" where
  "open_last s = (case s of OPEN \<Rightarrow> 0 | IGNORED \<Rightarrow> 1 | RESOLVED \<Rightarrow> 2)"

definition scored_row :: "string \<Rightarrow> Status \<Rightarrow> int \<Rightarrow> int \<Rightarrow> Alert" where
  "scored_row u s r t =
     \<lparr>uuid = u, type = NEW_ENDPOINT, riskScore = r, status = s, description = ''d'',
      alert_context = NoContext, resolutionMessage = None, apiEndpointUuid = ''e1'',
      apiEndpoint = None, createdAt = t, updatedAt = t\<rparr>"

definition listing_rows :: "Alert list" where
  "listing_rows =
     [scored_row ''a'' OPEN 1 5, scored_row ''b'' OPEN 3 1, scored_row ''c'' RESOLVED 3 9]"

subsection \<open>The imported maps and helpers\<close>

text \<open>
  \<^verbatim>\<open>ALERT_TYPE_TO_RISK_SCORE\<close>, \<^verbatim>\<open>DATA_SECTION_TO_LABEL_MAP\<close> and \<^verbatim>\<open>getPathTokens\<close> are
  imported from \<^verbatim>\<open>@common\<close>, which is not among the sources: they are parameters of
  the model.
\<close>

record common =
  ALERT_TYPE_TO_RISK_SCORE :: "AlertType \<Rightarrow> int"
  DATA_SECTION_TO_LABEL_MAP :: "DataSection \<Rightarrow> string"
  getPathTokens :: "string \<Rightarrow> string list"

record DataField =
  dataSection :: DataSection
  dataPath :: string
  dataClasses :: "string list option"

text \<open>
  The repository of alerts as the batch constructors see it: its rows, and the lookups
  the connection rejects (the awaited promise rejects, which raises at the \<^verbatim>\<open>await\<close>).
\<close>

record AlertRepository =
  alert_rows :: "Alert list"
  query_rejected :: "string \<Rightarrow> AlertType \<Rightarrow> string \<Rightarrow> bool"

text \<open>
  \<^verbatim>\<open>toLowerCase\<close> on ASCII letters. The results are only compared with the ASCII texts
  \<^verbatim>\<open>authorization\<close> and \<^verbatim>\<open>basic \<close>, which no other letter lower-cases into.
\<close>

definition lowerCaseLetter :: "char \<Rightarrow> char" where
  "lowerCaseLetter c =
     (case map_of (zip ''ABCDEFGHIJKLMNOPQRSTUVWXYZ'' ''abcdefghijklmnopqrstuvwxyz'') c of
        Some l \<Rightarrow> l
      | None \<Rightarrow> c)"

definition toLowerCase :: "string \<Rightarrow> string" where
  "toLowerCase s = map lowerCaseLetter s"

fun startsWith :: "string \<Rightarrow> string \<Rightarrow> bool" where
  "startsWith s [] = True"
| "startsWith [] (c # cs) = False"
| "startsWith (d # ds) (c # cs) = (d = c \<and> startsWith ds cs)"

text \<open>\<^verbatim>\<open>s.includes(sub)\<close>: \<open>sub\<close> starts at some position of \<open>s\<close>.\<close>

fun js_includes :: "string \<Rightarrow> string \<Rightarrow> bool" where
  "js_includes [] sub = (sub = [])"
| "js_includes (c # cs) sub = (startsWith (c # cs) sub \<or> js_includes cs sub)"

text \<open>The decimal digits of a number, as a template literal prints it.\<close>

fun decimal :: "nat \<Rightarrow> string" where
  "decimal n =
     (if n < 10 then [''0123456789'' ! n] else decimal (n div 10) @ [''0123456789'' ! (n mod 10)])"

subsection \<open>Deduplication\<close>

definition existingUnresolvedAlert ::
  "AlertRepository \<Rightarrow> string \<Rightarrow> AlertType \<Rightarrow> string \<Rightarrow> error + Alert option" where
  "existingUnresolvedAlert repo apiEndpointUuid' type' description' =
     (if query_rejected repo apiEndpointUuid' type' description'
      then Inl (QueryFailedError ''findOneBy'')
      else Inr (find (\<lambda>a. apiEndpointUuid a = apiEndpointUuid' \<and> type a = type' \<and>
                           status a \<noteq> RESOLVED \<and> description a = description')
                  (alert_rows repo)))"

fun existingDataFieldAlert :: "Alert list option \<Rightarrow> string \<Rightarrow> string \<Rightarrow> bool" where
  "existingDataFieldAlert None apiEndpointUuid' description' = False"
| "existingDataFieldAlert (Some []) apiEndpointUuid' description' = False"
| "existingDataFieldAlert (Some (alert # dataFieldAlerts)) apiEndpointUuid' description' =
     (if apiEndpointUuid alert = apiEndpointUuid' \<and> description alert = description' then True
      else existingDataFieldAlert (Some dataFieldAlerts) apiEndpointUuid' description')"

text \<open>
  Modelled from the spec: the constructor of the entity class \<^verbatim>\<open>Alert\<close>, which is not
  among the sources. \<open>newAlert\<close> is the block that builds a draft, \<^verbatim>\<open>new Alert()\<close>
  followed by the assignments of \<^verbatim>\<open>type\<close>, \<^verbatim>\<open>riskScore\<close>, \<^verbatim>\<open>apiEndpointUuid\<close>,
  \<^verbatim>\<open>context\<close> and \<^verbatim>\<open>description\<close>. The fields the block leaves unassigned have the
  defaults the specification gives a new alert (status \<open>OPEN\<close>, no resolution message),
  an empty id, no joined endpoint and zero time stamps.
\<close>

definition newAlert :: "common \<Rightarrow> AlertType \<Rightarrow> string \<Rightarrow> AlertContext \<Rightarrow> string \<Rightarrow> Alert" where
  "newAlert cm type' apiEndpointUuid' context' description' =
     \<lparr>uuid = [], type = type', riskScore = ALERT_TYPE_TO_RISK_SCORE cm type', status = OPEN,
      description = description', alert_context = context', resolutionMessage = None,
      apiEndpointUuid = apiEndpointUuid', apiEndpoint = None, createdAt = 0, updatedAt = 0\<rparr>"

subsection \<open>Loops that may raise\<close>

text \<open>
  A loop body takes the state it mutates and returns the exception it raised, if any,
  with the state as it is at that moment. \<open>forEach\<close> is \<^verbatim>\<open>for (const x of xs)\<close>: the
  first exception ends the loop.
\<close>

fun forEach :: "('a \<Rightarrow> 's \<Rightarrow> error option \<times> 's) \<Rightarrow> 'a list \<Rightarrow> 's \<Rightarrow> error option \<times> 's" where
  "forEach body [] s = (None, s)"
| "forEach body (x # xs) s =
     (case body x s of
        (Some e, s') \<Rightarrow> (Some e, s')
      | (None, s') \<Rightarrow> forEach body xs s')"

subsection \<open>createDataFieldAlerts\<close>

definition basicAuthDescription :: string where
  "basicAuthDescription = ''Basic Authentication detected in Authorization header.''"

text \<open>An entry of \<^verbatim>\<open>alertsToAdd\<close>: description, type and context.\<close>

type_synonym alertToAdd = "string \<times> AlertType \<times> AlertContext"

text \<open>
  The check and the push both loops of \<^verbatim>\<open>createDataFieldAlerts\<close> make for a candidate:
  \<^verbatim>\<open>existingDataFieldAlert(alerts, ...) || (await existingUnresolvedAlert(...))\<close>, the
  repository being asked only when the batch holds no duplicate, then the push of the
  new draft when neither exists.
\<close>

definition pushUnlessExisting ::
  "common \<Rightarrow> AlertRepository \<Rightarrow> string \<Rightarrow> alertToAdd \<Rightarrow> Alert list \<Rightarrow> error option \<times> Alert list" where
  "pushUnlessExisting cm repo apiEndpointUuid' alert alerts =
     (case alert of (description', type', context') \<Rightarrow>
        if existingDataFieldAlert (Some alerts) apiEndpointUuid' description' then (None, alerts)
        else (case existingUnresolvedAlert repo apiEndpointUuid' type' description' of
                Inl e \<Rightarrow> (Some e, alerts)
              | Inr (Some existing) \<Rightarrow> (None, alerts)
              | Inr None \<Rightarrow>
                  (None, alerts @ [newAlert cm type' apiEndpointUuid' context' description'])))"

definition isBasicAuthHeader :: "Meta \<Rightarrow> bool" where
  "isBasicAuthHeader header =
     (toLowerCase (header_name header) = ''authorization'' \<and>
      js_includes (toLowerCase (header_value header)) ''basic '')"

text \<open>
  The loop over the request headers, \<^verbatim>\<open>for (let i = 0; i < requestHeaders.length && !found; i++)\<close>:
  the first matching header sets \<^verbatim>\<open>found\<close>, which ends the loop after its body.
\<close>

fun scanRequestHeaders ::
  "common \<Rightarrow> AlertRepository \<Rightarrow> string \<Rightarrow> ApiTrace option \<Rightarrow> Meta list \<Rightarrow> Alert list \<Rightarrow>
   error option \<times> Alert list" where
  "scanRequestHeaders cm repo apiEndpointUuid' apiTrace [] alerts = (None, alerts)"
| "scanRequestHeaders cm repo apiEndpointUuid' apiTrace (header # requestHeaders') alerts =
     (if isBasicAuthHeader header
      then pushUnlessExisting cm repo apiEndpointUuid'
             (basicAuthDescription, BASIC_AUTHENTICATION_DETECTED, TraceContext apiTrace) alerts
      else scanRequestHeaders cm repo apiEndpointUuid' apiTrace requestHeaders' alerts)"

definition positionDescription :: "nat \<Rightarrow> string \<Rightarrow> string" where
  "positionDescription i dataClass =
     ''Path Parameter at position '' @ decimal (i + 1) @
     '' contains sensitive data of type '' @ dataClass @ ''.''"

text \<open>
  The loop over the path tokens, from index \<open>i\<close>: every token equal to \<^verbatim>\<open>{dataPath}\<close>
  overwrites \<^verbatim>\<open>pathTokenIdx\<close> and the description (the loop has no break).
\<close>

fun scanPathTokens ::
  "string list \<Rightarrow> nat \<Rightarrow> string \<Rightarrow> string \<Rightarrow> nat option \<times> string \<Rightarrow> nat option \<times> string" where
  "scanPathTokens [] i dataPath' dataClass found = found"
| "scanPathTokens (token # endpointPathTokens) i dataPath' dataClass found =
     scanPathTokens endpointPathTokens (Suc i) dataPath' dataClass
       (if token = ''{'' @ dataPath' @ ''}'' then (Some i, positionDescription i dataClass)
        else found)"

text \<open>The template literals of the descriptions.\<close>

definition piiDescription :: "common \<Rightarrow> DataField \<Rightarrow> string \<Rightarrow> string" where
  "piiDescription cm dataField dataClass =
     ''Sensitive data of type '' @ dataClass @ '' has been detected in field '' @ [CHR 0x27] @
     dataPath dataField @ [CHR 0x27] @ '' of '' @
     DATA_SECTION_TO_LABEL_MAP cm (dataSection dataField) @ ''.''"

definition sensitiveQueryDescription :: "DataField \<Rightarrow> string \<Rightarrow> string" where
  "sensitiveQueryDescription dataField dataClass =
     ''Query Parameter '' @ [CHR 0x27] @ dataPath dataField @ [CHR 0x27] @
     '' contains sensitive data of type '' @ dataClass @ ''.''"

definition pathParametersDescription :: "string \<Rightarrow> string" where
  "pathParametersDescription dataClass =
     ''Path Parameters contain sensitive data of type '' @ dataClass @ ''.''"

definition alertsToAdd ::
  "common \<Rightarrow> DataField \<Rightarrow> string \<Rightarrow> string \<Rightarrow> ApiTrace option \<Rightarrow> alertToAdd list" where
  "alertsToAdd cm dataField dataClass apiEndpointPath apiTrace =
     [(piiDescription cm dataField dataClass, PII_DATA_DETECTED, TraceContext apiTrace)] @
     (if dataSection dataField = REQUEST_QUERY
      then [(sensitiveQueryDescription dataField dataClass, QUERY_SENSITIVE_DATA,
             TraceContext apiTrace)]
      else []) @
     (if dataSection dataField = REQUEST_PATH
      then (case scanPathTokens (getPathTokens cm apiEndpointPath) 0 (dataPath dataField) dataClass
                   (None, pathParametersDescription dataClass) of
              (pathTokenIdx, sensitivePathDescription) \<Rightarrow>
                [(sensitivePathDescription, PATH_SENSITIVE_DATA,
                  PathTokenContext apiTrace pathTokenIdx)])
      else [])"

text \<open>The body of the loop over the data fields.\<close>

definition dataFieldBody ::
  "common \<Rightarrow> AlertRepository \<Rightarrow> string \<Rightarrow> string \<Rightarrow> ApiTrace option \<Rightarrow> DataField \<Rightarrow> Alert list \<Rightarrow>
   error option \<times> Alert list" where
  "dataFieldBody cm repo apiEndpointUuid' apiEndpointPath apiTrace dataField alerts =
     (case (if dataSection dataField = REQUEST_HEADER
            then (case optional_chain apiTrace requestHeaders of
                    None \<Rightarrow> (None, alerts)
                  | Some hs \<Rightarrow> scanRequestHeaders cm repo apiEndpointUuid' apiTrace hs alerts)
            else (None, alerts)) of
        (Some e, alerts') \<Rightarrow> (Some e, alerts')
      | (None, alerts') \<Rightarrow>
          (case dataClasses dataField of
             None \<Rightarrow> (None, alerts')
           | Some classes \<Rightarrow>
               forEach
                 (\<lambda>dataClass.
                    forEach (pushUnlessExisting cm repo apiEndpointUuid')
                      (alertsToAdd cm dataField dataClass apiEndpointPath apiTrace))
                 classes alerts'))"

text \<open>
  Arrays are objects on a heap: a reference is an index into the list of the arrays
  allocated so far, and \<open>newArray\<close> is the literal \<^verbatim>\<open>[]\<close>.
\<close>

type_synonym heap = "Alert list list"

definition newArray :: "heap \<Rightarrow> heap \<times> nat" where
  "newArray h = (h @ [[]], length h)"

text \<open>
  \<open>createDataFieldAlerts cm repo h dataFields ... sensitiveDataAlerts\<close> is the heap after
  the call and the reference the call returns. \<^verbatim>\<open>alerts\<close> is the caller's array when one
  is supplied (\<^verbatim>\<open>sensitiveDataAlerts ?? []\<close>), and the loop pushes onto it; the
  \<^verbatim>\<open>catch\<close> block returns a new empty array.
\<close>

definition createDataFieldAlerts ::
  "common \<Rightarrow> AlertRepository \<Rightarrow> heap \<Rightarrow> DataField list option \<Rightarrow> string \<Rightarrow> string \<Rightarrow>
   ApiTrace option \<Rightarrow> nat option \<Rightarrow> heap \<times> nat" where
  "createDataFieldAlerts cm repo h dataFields apiEndpointUuid' apiEndpointPath apiTrace
       sensitiveDataAlerts =
     (case dataFields of
        None \<Rightarrow> newArray h
      | Some dataFields' \<Rightarrow>
          (case (case sensitiveDataAlerts of Some r \<Rightarrow> (h, r) | None \<Rightarrow> newArray h) of
             (h1, alerts) \<Rightarrow>
               (case forEach (dataFieldBody cm repo apiEndpointUuid' apiEndpointPath apiTrace)
                       dataFields' (h1 ! alerts) of
                  (None, pushed) \<Rightarrow> (h1[alerts := pushed], alerts)
                | (Some err, pushed) \<Rightarrow> newArray (h1[alerts := pushed]))))"

subsection \<open>createMissingHSTSAlert\<close>

definition hstsBody ::
  "common \<Rightarrow> AlertRepository \<Rightarrow> ApiEndpoint \<times> ApiTrace \<times> string \<Rightarrow> Alert list \<Rightarrow>
   error option \<times> Alert list" where
  "hstsBody cm repo alertProp alerts =
     (case alertProp of (endpoint, trace, description') \<Rightarrow>
        (case existingUnresolvedAlert repo (endpoint_uuid endpoint) UNSECURED_ENDPOINT_DETECTED
                description' of
           Inl e \<Rightarrow> (Some e, alerts)
         | Inr (Some existing) \<Rightarrow> (None, alerts)
         | Inr None \<Rightarrow>
             (None, alerts @
                [newAlert cm UNSECURED_ENDPOINT_DETECTED (endpoint_uuid endpoint)
                   (TestedAgainstContext (trace_host trace @ ''/'' @ trace_path trace) trace)
                   description'])))"

definition createMissingHSTSAlert ::
  "common \<Rightarrow> AlertRepository \<Rightarrow> (ApiEndpoint \<times> ApiTrace \<times> string) list option \<Rightarrow> Alert list" where
  "createMissingHSTSAlert cm repo alertProps =
     (case alertProps of
        None \<Rightarrow> []
      | Some props \<Rightarrow>
          (case forEach (hstsBody cm repo) props [] of
             (None, alerts) \<Rightarrow> alerts
           | (Some err, alerts) \<Rightarrow> []))"

subsection \<open>createSpecDiffAlerts\<close>

text \<open>
  Modelled from the spec: the entity \<^verbatim>\<open>OpenApiSpec\<close> of \<^verbatim>\<open>models\<close>, with the fields the
  service reads or writes. \<^verbatim>\<open>minimizedSpecContext\<close> is a plain object from pointer keys
  to locations: the map of its own properties.
\<close>

record MinimizedSpec =
  lineNumber :: int
  minimizedSpec :: string

record OpenApiSpec =
  spec_name :: string
  spec :: string
  extension :: SpecExtension
  minimizedSpecContext :: "string \<rightharpoonup> MinimizedSpec"

text \<open>
  The parsers are libraries (json-source-map, js-yaml with js-yaml-source-map) and are
  parameters. \<open>jsonMap_parse text\<close> raises on a malformed text; otherwise it gives, for a
  JSON pointer, \<^verbatim>\<open>result.pointers?.[pathKey]?.key?.line\<close> (\<open>None\<close> when undefined).
  \<open>yaml_load text\<close> raises on a malformed text; otherwise it gives, for a path, the line
  of \<^verbatim>\<open>map.lookup(path)\<close>, \<open>None\<close> when the lookup returns undefined.
\<close>

record libraries =
  jsonMap_parse :: "string \<Rightarrow> error + (string \<Rightarrow> int option)"
  yaml_load :: "string \<Rightarrow> error + (string list \<Rightarrow> int option)"

text \<open>\<^verbatim>\<open>xs.join(sep)\<close>.\<close>

fun join :: "string \<Rightarrow> string list \<Rightarrow> string" where
  "join sep [] = []"
| "join sep [x] = x"
| "join sep (x # y # ys) = x @ sep @ join sep (y # ys)"

text \<open>The JSON pointer of a path: \<^verbatim>\<open>/\<close> in a token becomes \<^verbatim>\<open>~1\<close>, and every token is prefixed by \<^verbatim>\<open>/\<close>.\<close>

definition pathKeyOf :: "string list \<Rightarrow> string" where
  "pathKeyOf pathPointer =
     concat (map (\<lambda>pathToken. ''/'' @ concat (map (\<lambda>c. if c = CHR ''/'' then ''~1'' else [c]) pathToken))
               pathPointer)"

text \<open>\<^verbatim>\<open>text.split(/\r?\n/)\<close>.\<close>

fun splitLines :: "string \<Rightarrow> string list" where
  "splitLines [] = [[]]"
| "splitLines [c] = (if c = CHR 0x0A then [[], []] else [[c]])"
| "splitLines (c # d # cs) =
     (if c = CHR 0x0A then [] # splitLines (d # cs)
      else if c = CHR 0x0D \<and> d = CHR 0x0A then [] # splitLines cs
      else (case splitLines (d # cs) of
              [] \<Rightarrow> [[c]]
            | line # lines \<Rightarrow> (c # line) # lines))"

text \<open>\<^verbatim>\<open>xs.slice(start, stop)\<close>: a negative index counts from the end.\<close>

definition js_slice :: "'a list \<Rightarrow> int \<Rightarrow> int \<Rightarrow> 'a list" where
  "js_slice xs start stop =
     (let n = int (length xs);
          k = (if start < 0 then max (n + start) 0 else min start n);
          final = (if stop < 0 then max (n + stop) 0 else min stop n)
      in take (nat (final - k)) (drop (nat k) xs))"

text \<open>
  The line number of a path in the specification text, as the two branches on the
  extension compute it; a truthy line is shifted by one.
\<close>

definition lineNumberOf :: "libraries \<Rightarrow> OpenApiSpec \<Rightarrow> string list \<Rightarrow> error + int option" where
  "lineNumberOf lib openApiSpec pathPointer =
     (case extension openApiSpec of
        JSON \<Rightarrow>
          (case jsonMap_parse lib (spec openApiSpec) of
             Inl e \<Rightarrow> Inl e
           | Inr pointers \<Rightarrow>
               Inr (case pointers (pathKeyOf pathPointer) of
                      None \<Rightarrow> None
                    | Some l \<Rightarrow> Some (if l \<noteq> 0 then l + 1 else l)))
      | YAML \<Rightarrow>
          (case yaml_load lib (spec openApiSpec) of
             Inl e \<Rightarrow> Inl e
           | Inr lookup \<Rightarrow>
               (case lookup pathPointer of
                  None \<Rightarrow> Inl (TypeError ''map.lookup(pathPointer).line'')
                | Some l \<Rightarrow> Inr (Some (if l \<noteq> 0 then l - 1 else l))))
      | OTHER_EXTENSION x \<Rightarrow> Inr None)"

text \<open>
  What a call of \<^verbatim>\<open>createSpecDiffAlerts\<close> changes: its array of drafts, the
  specification object of the caller, the updates executed through the query runner,
  and (for the properties only) the number of times the specification text was parsed.
\<close>

record SpecDiffState =
  alerts_pushed :: "Alert list"
  openApiSpec_now :: OpenApiSpec
  parse_count :: nat
  updates_executed :: "(string \<times> (string \<rightharpoonup> MinimizedSpec)) list"

text \<open>
  The properties a plain object inherits from \<^verbatim>\<open>Object.prototype\<close>. Each is a function
  or an object, so reading it gives a truthy value.
\<close>

definition Object_prototype_properties :: "string list" where
  "Object_prototype_properties =
     [''constructor'', ''__defineGetter__'', ''__defineSetter__'', ''hasOwnProperty'',
      ''__lookupGetter__'', ''__lookupSetter__'', ''isPrototypeOf'', ''propertyIsEnumerable'',
      ''toString'', ''valueOf'', ''__proto__'', ''toLocaleString'']"

text \<open>
  \<^verbatim>\<open>openApiSpec.minimizedSpecContext[minimizedSpecKey]\<close> is truthy: the object has a
  location under the key (a location is an object, hence truthy), or the key names an
  inherited property.
\<close>

definition property_is_truthy :: "(string \<rightharpoonup> MinimizedSpec) \<Rightarrow> string \<Rightarrow> bool" where
  "property_is_truthy obj key = (obj key \<noteq> None \<or> key \<in> set Object_prototype_properties)"

text \<open>The block guarded by \<^verbatim>\<open>!openApiSpec.minimizedSpecContext[minimizedSpecKey]\<close>.\<close>

definition resolveLocation :: "libraries \<Rightarrow> string list \<Rightarrow> SpecDiffState \<Rightarrow> error option \<times> SpecDiffState" where
  "resolveLocation lib pathPointer st =
     (let openApiSpec = openApiSpec_now st;
          minimizedSpecKey = join ''.'' pathPointer
      in if property_is_truthy (minimizedSpecContext openApiSpec) minimizedSpecKey then (None, st)
         else
           (let st1 = st\<lparr>parse_count := parse_count st +
                          (if extension openApiSpec = JSON \<or> extension openApiSpec = YAML
                           then 1 else 0)\<rparr>
            in case lineNumberOf lib openApiSpec pathPointer of
                 Inl e \<Rightarrow> (Some e, st1)
               | Inr None \<Rightarrow> (None, st1)
               | Inr (Some l) \<Rightarrow>
                   if l = 0 then (None, st1)
                   else (None, st1\<lparr>openApiSpec_now := openApiSpec\<lparr>minimizedSpecContext :=
                           (minimizedSpecContext openApiSpec)
                             (minimizedSpecKey \<mapsto>
                                \<lparr>lineNumber = l,
                                 minimizedSpec =
                                   join [CHR 0x0A]
                                     (js_slice (splitLines (spec openApiSpec)) (l - 5) (l + 5))\<rparr>)\<rparr>\<rparr>)))"

text \<open>
  The body of the loop over the keys of \<^verbatim>\<open>alertItems\<close>, for the key and its pointer.
  \<open>queryRunner name context\<close> is the update of the specification row: the exception it
  raises, if any.
\<close>

definition specDiffBody ::
  "libraries \<Rightarrow> common \<Rightarrow> AlertRepository \<Rightarrow> (string \<Rightarrow> (string \<rightharpoonup> MinimizedSpec) \<Rightarrow> error option) \<Rightarrow>
   string \<Rightarrow> ApiTrace option \<Rightarrow> string \<times> string list \<Rightarrow> SpecDiffState \<Rightarrow> error option \<times> SpecDiffState" where
  "specDiffBody lib cm repo queryRunner apiEndpointUuid' apiTrace item st =
     (case item of (key, pathPointer) \<Rightarrow>
        (case existingUnresolvedAlert repo apiEndpointUuid' OPEN_API_SPEC_DIFF key of
           Inl e \<Rightarrow> (Some e, st)
         | Inr existing \<Rightarrow>
             (case (case existing of
                      Some found \<Rightarrow> (None, st)
                    | None \<Rightarrow>
                        (case resolveLocation lib pathPointer st of
                           (Some e, st1) \<Rightarrow> (Some e, st1)
                         | (None, st1) \<Rightarrow>
                             (None, st1\<lparr>alerts_pushed := alerts_pushed st1 @
                                [newAlert cm OPEN_API_SPEC_DIFF apiEndpointUuid'
                                   (PathPointerContext pathPointer apiTrace) key]\<rparr>))) of
                (Some e, st2) \<Rightarrow> (Some e, st2)
              | (None, st2) \<Rightarrow>
                  (case queryRunner (spec_name (openApiSpec_now st2))
                          (minimizedSpecContext (openApiSpec_now st2)) of
                     Some e \<Rightarrow> (Some e, st2)
                   | None \<Rightarrow>
                       (None, st2\<lparr>updates_executed := updates_executed st2 @
                          [(spec_name (openApiSpec_now st2),
                            minimizedSpecContext (openApiSpec_now st2))]\<rparr>)))))"

definition initialSpecDiffState :: "OpenApiSpec \<Rightarrow> SpecDiffState" where
  "initialSpecDiffState openApiSpec =
     \<lparr>alerts_pushed = [], openApiSpec_now = openApiSpec, parse_count = 0, updates_executed = []\<rparr>"

text \<open>
  \<open>createSpecDiffAlerts\<close> gives the list the call returns and the state it leaves.
  \<^verbatim>\<open>alertItems\<close> is the list of the entries of the object, in the order \<^verbatim>\<open>for ... in\<close>
  enumerates its keys; the keys of an object are distinct.
\<close>

definition createSpecDiffAlerts ::
  "libraries \<Rightarrow> common \<Rightarrow> AlertRepository \<Rightarrow> (string \<Rightarrow> (string \<rightharpoonup> MinimizedSpec) \<Rightarrow> error option) \<Rightarrow>
   (string \<times> string list) list option \<Rightarrow> string \<Rightarrow> ApiTrace option \<Rightarrow> OpenApiSpec \<Rightarrow>
   Alert list \<times> SpecDiffState" where
  "createSpecDiffAlerts lib cm repo queryRunner alertItems apiEndpointUuid' apiTrace openApiSpec =
     (let st0 = initialSpecDiffState openApiSpec
      in case alertItems of
           None \<Rightarrow> ([], st0)
         | Some items \<Rightarrow>
             if length items = 0 then ([], st0)
             else (case forEach (specDiffBody lib cm repo queryRunner apiEndpointUuid' apiTrace)
                          items st0 of
                     (None, st) \<Rightarrow> (alerts_pushed st, st)
                   | (Some err, st) \<Rightarrow> ([], st)))"

subsection \<open>The deduplication policy, as the specification words it\<close>












text \<open>The array \<^verbatim>\<open>alerts\<close> starts from, and the array a call returns.\<close>

definition initial_alerts :: "heap \<Rightarrow> nat option \<Rightarrow> Alert list" where
  "initial_alerts h sensitiveDataAlerts = (case sensitiveDataAlerts of None \<Rightarrow> [] | Some r \<Rightarrow> h ! r)"


definition returned_alerts :: "heap \<times> nat \<Rightarrow> Alert list" where
  "returned_alerts result = fst result ! snd result"

subsection \<open>Example data\<close>

definition example_common :: common where
  "example_common =
     \<lparr>ALERT_TYPE_TO_RISK_SCORE = (\<lambda>t. if t = PII_DATA_DETECTED then 3 else 2),
      DATA_SECTION_TO_LABEL_MAP = (\<lambda>s. if s = REQUEST_HEADER then ''Request Headers'' else ''Request''),
      getPathTokens = (\<lambda>p. [])\<rparr>"

definition repository_of :: "Alert list \<Rightarrow> AlertRepository" where
  "repository_of rows = \<lparr>alert_rows = rows, query_rejected = (\<lambda>ep ty descr. False)\<rparr>"

definition example_endpoint :: ApiEndpoint where
  "example_endpoint = \<lparr>endpoint_uuid = ''e1'', endpoint_path = ''/login'', endpoint_host = ''api.test''\<rparr>"

definition example_trace :: ApiTrace where
  "example_trace =
     \<lparr>trace_host = ''api.test'', trace_path = ''login'',
      requestHeaders = Some [\<lparr>header_name = ''Accept'', header_value = ''*/*''\<rparr>,
                             \<lparr>header_name = ''Authorization'', header_value = ''Basic eHl6''\<rparr>,
                             \<lparr>header_name = ''authorization'', header_value = ''BASIC YWJj''\<rparr>]\<rparr>"

definition stored_alert :: "AlertType \<Rightarrow> string \<Rightarrow> Status \<Rightarrow> Alert" where
  "stored_alert ty descr s =
     \<lparr>uuid = ''u'', type = ty, riskScore = 2, status = s, description = descr,
      alert_context = NoContext, resolutionMessage = None, apiEndpointUuid = ''e1'',
      apiEndpoint = None, createdAt = 1, updatedAt = 1\<rparr>"

definition example_repository :: AlertRepository where
  "example_repository =
     repository_of
       [stored_alert BASIC_AUTHENTICATION_DETECTED basicAuthDescription RESOLVED,
        stored_alert OPEN_API_SPEC_DIFF ''k1'' RESOLVED,
        stored_alert OPEN_API_SPEC_DIFF ''k2'' OPEN,
        stored_alert UNSECURED_ENDPOINT_DETECTED ''No HSTS header'' RESOLVED]"

definition header_field :: DataField where
  "header_field = \<lparr>dataSection = REQUEST_HEADER, dataPath = ''Authorization'', dataClasses = None\<rparr>"

text \<open>
  A specification text of four lines (numbered from 0, as the source map numbers them):
  the key \<^verbatim>\<open>openapi\<close> is on line 1 and the key \<^verbatim>\<open>paths\<close> on line 2.
\<close>

definition example_json_lines :: "string list" where
  "example_json_lines =
     [''{'',
      ''  '' @ [CHR 0x22] @ ''openapi'' @ [CHR 0x22] @ '': '' @ [CHR 0x22] @ ''3.0.0'' @ [CHR 0x22] @ '','',
      ''  '' @ [CHR 0x22] @ ''paths'' @ [CHR 0x22] @ '': {}'',
      ''}'']"

definition example_json_text :: string where
  "example_json_text = join [CHR 0x0A] example_json_lines"

text \<open>
  The parsers on the example text: json-source-map reports the two keys on their lines
  and no other pointer with a key. The examples parse no other text and no YAML.
\<close>

definition example_libraries :: libraries where
  "example_libraries =
     \<lparr>jsonMap_parse =
        (\<lambda>text. if text = example_json_text
                 then Inr (\<lambda>pathKey. if pathKey = ''/openapi'' then Some 1
                                      else if pathKey = ''/paths'' then Some 2 else None)
                 else Inl (ParseError ''Unexpected token'')),
      yaml_load = (\<lambda>text. Inl (ParseError ''not a YAML text''))\<rparr>"

definition example_spec :: "SpecExtension \<Rightarrow> OpenApiSpec" where
  "example_spec ext =
     \<lparr>spec_name = ''petstore'', spec = example_json_text, extension = ext,
      minimizedSpecContext = Map.empty\<rparr>"

definition hsts_draft :: Alert where
  "hsts_draft =
     newAlert example_common UNSECURED_ENDPOINT_DETECTED ''e1''
       (TestedAgainstContext ''api.test/login'' example_trace) ''No HSTS header''"



definition unavailable_repository :: AlertRepository where
  "unavailable_repository = \<lparr>alert_rows = [], query_rejected = (\<lambda>ep ty descr. True)\<rparr>"




text \<open>
  The location of \<^verbatim>\<open>paths\<close> in the example text: line 2 shifted to 3, and the slice
  \<^verbatim>\<open>slice(-2, 8)\<close> of its four lines, which is the last two.
\<close>

definition cached_location :: MinimizedSpec where
  "cached_location =
     \<lparr>lineNumber = 3,
      minimizedSpec = ''  '' @ [CHR 0x22] @ ''paths'' @ [CHR 0x22] @ '': {}'' @ [CHR 0x0A] @ ''}''\<rparr>"

definition cached_state :: SpecDiffState where
  "cached_state =
     \<lparr>alerts_pushed = [],
      openApiSpec_now = (example_spec JSON)\<lparr>minimizedSpecContext := [''paths'' \<mapsto> cached_location]\<rparr>,
      parse_count = 1, updates_executed = []\<rparr>"

text \<open>The state after \<open>n\<close> parses that cached nothing.\<close>

definition uncached_state :: "nat \<Rightarrow> SpecDiffState" where
  "uncached_state n = (initialSpecDiffState (example_spec JSON))\<lparr>parse_count := n\<rparr>"


section \<open>Properties\<close>

subsection \<open>The lifecycle\<close>

lemma trim_no_leading_whitespace: "trim s \<noteq> [] \<Longrightarrow> \<not> isWhitespace (hd (trim s))"
proof -
  assume ne: "trim s \<noteq> []"
  let ?t = "dropWhile isWhitespace s"
  let ?r = "dropWhile isWhitespace (rev ?t)"
  have t: "trim s = rev ?r" by (simp add: trim_def)
  with ne have rne: "?r \<noteq> []" by simp
  have tne: "?t \<noteq> []"
  proof
    assume "?t = []"
    then have "?r = []" by (simp only: rev.simps dropWhile.simps)
    with rne show False by contradiction
  qed
  have "\<not> isWhitespace (hd ?t)" using tne by (rule hd_dropWhile)
  moreover have "hd (rev ?r) = hd ?t"
  proof -
    obtain ws where ws: "rev ?t = ws @ ?r"
      by (metis takeWhile_dropWhile_id)
    then have "?t = rev ?r @ rev ws" by (metis rev_append rev_rev_ident)
    then have "hd ?t = hd (rev ?r @ rev ws)" by simp
    also have "\<dots> = hd (rev ?r)" using rne by simp
    finally show ?thesis by simp
  qed
  ultimately show ?thesis using t by simp
qed

lemma trim_no_trailing_whitespace: "trim s \<noteq> [] \<Longrightarrow> \<not> isWhitespace (last (trim s))"
proof -
  assume ne: "trim s \<noteq> []"
  let ?r = "dropWhile isWhitespace (rev (dropWhile isWhitespace s))"
  from ne have rne: "?r \<noteq> []" by (simp add: trim_def)
  then have "\<not> isWhitespace (hd ?r)" by (rule hd_dropWhile)
  moreover have "last (trim s) = hd ?r" using rne by (simp add: trim_def last_rev)
  ultimately show ?thesis by simp
qed

lemma trim_all_whitespace: "(\<forall>c \<in> set s. isWhitespace c) \<Longrightarrow> trim s = []"
proof -
  assume "\<forall>c \<in> set s. isWhitespace c"
  then have "dropWhile isWhitespace s = []" by simp
  then show ?thesis by (simp only: trim_def rev.simps dropWhile.simps)
qed

lemma orNull_trim: "orNull (map_option trim m) = trimmed_or_null m"
  by (cases m) (simp_all add: orNull_def trimmed_or_null_def)

text \<open>
  C2 (as amended). \<^verbatim>\<open>RESOLVE\<close> is valid from \<open>OPEN\<close> only: there the alert becomes
  \<open>RESOLVED\<close>, its resolution message is the trimmed input, or null when no message or
  only white space is supplied, and the row is written. From \<open>IGNORED\<close> the call raises
  the conflict "Alert is ignored and cannot be resolved.", from \<open>RESOLVED\<close> the conflict
  "Alert is already resolved."; the repository is left as it was.
\<close>

theorem resolve_transition:
  "findOne rows alertId = Some a \<Longrightarrow>
   updateAlert rows alertId \<lparr>updateType = RESOLVE, resolutionMessage_param = m\<rparr> =
     (case status a of
        OPEN \<Rightarrow>
          (Inr (a\<lparr>status := RESOLVED, resolutionMessage := trimmed_or_null m\<rparr>),
           update_rows rows alertId (a\<lparr>status := RESOLVED, resolutionMessage := trimmed_or_null m\<rparr>))
      | IGNORED \<Rightarrow> (Inl (Error409Conflict ''Alert is ignored and cannot be resolved.''), rows)
      | RESOLVED \<Rightarrow> (Inl (Error409Conflict ''Alert is already resolved.''), rows))"
  by (cases "status a") (simp_all add: updateAlert_def switch_updateType_def orNull_trim)

theorem resolve_transition_witness:
  "findOne [alert_row ''a1'' OPEN None] ''a1'' = Some (alert_row ''a1'' OPEN None) \<and>
   updateAlert [alert_row ''a1'' OPEN None] ''a1''
       \<lparr>updateType = RESOLVE, resolutionMessage_param = Some (utf16 ''  fixed in v2  '')\<rparr> =
     (Inr (alert_row ''a1'' RESOLVED (Some (utf16 ''fixed in v2''))),
      [alert_row ''a1'' RESOLVED (Some (utf16 ''fixed in v2''))]) \<and>
   updateAlert [alert_row ''a1'' OPEN None] ''a1''
       \<lparr>updateType = RESOLVE, resolutionMessage_param = Some [0x00A0, 0x0020, 0x2003, 0xFEFF, 0x2028]\<rparr> =
     (Inr (alert_row ''a1'' RESOLVED None), [alert_row ''a1'' RESOLVED None]) \<and>
   updateAlert [alert_row ''a1'' OPEN None] ''a1''
       \<lparr>updateType = RESOLVE, resolutionMessage_param = None\<rparr> =
     (Inr (alert_row ''a1'' RESOLVED None), [alert_row ''a1'' RESOLVED None])"
proof -
  have f: "findOne [alert_row ''a1'' OPEN None] ''a1'' = Some (alert_row ''a1'' OPEN None)"
    by (simp add: findOne_def alert_row_def)
  have t1: "trimmed_or_null (Some (utf16 ''  fixed in v2  '')) = Some (utf16 ''fixed in v2'')"
    by (simp add: trimmed_or_null_def trim_def isWhitespace_def utf16_def)
  have t2: "trimmed_or_null (Some [0x00A0, 0x0020, 0x2003, 0xFEFF, 0x2028]) = None"
    by (simp add: trimmed_or_null_def trim_def isWhitespace_def)
  have t3: "trimmed_or_null None = None"
    by (simp add: trimmed_or_null_def)
  show ?thesis
    using f resolve_transition [OF f, of "Some (utf16 ''  fixed in v2  '')"]
      resolve_transition [OF f, of "Some [0x00A0, 0x0020, 0x2003, 0xFEFF, 0x2028]"]
      resolve_transition [OF f, of None]
    by (simp add: t1 t2 t3 alert_row_def update_rows_def)
qed

text \<open>
  C2 as stated fails: resolving an ignored alert is rejected by the second guard of the
  \<^verbatim>\<open>RESOLVE\<close> case.
\<close>

theorem resolve_from_ignored_counterexample:
  "updateAlert [alert_row ''a1'' IGNORED None] ''a1''
       \<lparr>updateType = RESOLVE, resolutionMessage_param = Some (utf16 ''fixed'')\<rparr> =
     (Inl (Error409Conflict ''Alert is ignored and cannot be resolved.''),
      [alert_row ''a1'' IGNORED None])"
  by (simp add: updateAlert_def switch_updateType_def findOne_def alert_row_def)

text \<open>
  C5. For an alert that exists: \<^verbatim>\<open>IGNORE\<close> succeeds from \<open>OPEN\<close> only, \<^verbatim>\<open>UNIGNORE\<close>
  from \<open>IGNORED\<close> only and \<^verbatim>\<open>UNRESOLVE\<close> from \<open>RESOLVED\<close> only, each with the
  conflict message of the table otherwise. A command outside the enumeration raises the
  internal error (500), whatever the lookup returned, and writes nothing.
\<close>

theorem lifecycle_table:
  "(findOne rows alertId = Some a \<longrightarrow>
      updateAlert rows alertId \<lparr>updateType = IGNORE, resolutionMessage_param = m\<rparr> =
        (case status a of
           OPEN \<Rightarrow> (Inr (a\<lparr>status := IGNORED\<rparr>), update_rows rows alertId (a\<lparr>status := IGNORED\<rparr>))
         | IGNORED \<Rightarrow> (Inl (Error409Conflict ''Alert is already being ignored.''), rows)
         | RESOLVED \<Rightarrow> (Inl (Error409Conflict ''Alert is resolved and cannot be ignored.''), rows)) \<and>
      updateAlert rows alertId \<lparr>updateType = UNIGNORE, resolutionMessage_param = m\<rparr> =
        (case status a of
           IGNORED \<Rightarrow> (Inr (a\<lparr>status := OPEN\<rparr>), update_rows rows alertId (a\<lparr>status := OPEN\<rparr>))
         | OPEN \<Rightarrow> (Inl (Error409Conflict ''Alert is currently not ignored.''), rows)
         | RESOLVED \<Rightarrow> (Inl (Error409Conflict ''Alert is currently not ignored.''), rows)) \<and>
      updateAlert rows alertId \<lparr>updateType = UNRESOLVE, resolutionMessage_param = m\<rparr> =
        (case status a of
           RESOLVED \<Rightarrow> (Inr (a\<lparr>status := OPEN\<rparr>), update_rows rows alertId (a\<lparr>status := OPEN\<rparr>))
         | OPEN \<Rightarrow> (Inl (Error409Conflict ''Alert is currently not resolved.''), rows)
         | IGNORED \<Rightarrow> (Inl (Error409Conflict ''Alert is currently not resolved.''), rows))) \<and>
   updateAlert rows alertId \<lparr>updateType = UNKNOWN_UPDATE_TYPE v, resolutionMessage_param = m\<rparr> =
     (Inl (Error500InternalServer ''Unknown update type.''), rows)"
  by (cases "status a") (simp_all add: updateAlert_def switch_updateType_def)

theorem lifecycle_table_witness:
  "findOne three_rows ''a2'' = Some (alert_row ''a2'' IGNORED None) \<and>
   updateAlert three_rows ''a2'' \<lparr>updateType = IGNORE, resolutionMessage_param = None\<rparr> =
     (Inl (Error409Conflict ''Alert is already being ignored.''), three_rows) \<and>
   updateAlert three_rows ''a2'' \<lparr>updateType = UNIGNORE, resolutionMessage_param = None\<rparr> =
     (Inr (alert_row ''a2'' OPEN None),
      [alert_row ''a1'' OPEN None, alert_row ''a2'' OPEN None, alert_row ''a3'' RESOLVED (Some (utf16 ''done''))]) \<and>
   updateAlert three_rows ''a2'' \<lparr>updateType = UNRESOLVE, resolutionMessage_param = None\<rparr> =
     (Inl (Error409Conflict ''Alert is currently not resolved.''), three_rows) \<and>
   updateAlert three_rows ''a2'' \<lparr>updateType = UNKNOWN_UPDATE_TYPE ''ARCHIVE'', resolutionMessage_param = None\<rparr> =
     (Inl (Error500InternalServer ''Unknown update type.''), three_rows)"
proof -
  have f: "findOne three_rows ''a2'' = Some (alert_row ''a2'' IGNORED None)"
    by (simp add: findOne_def three_rows_def alert_row_def)
  have u: "update_rows three_rows ''a2'' ((alert_row ''a2'' IGNORED None)\<lparr>status := OPEN\<rparr>) =
      [alert_row ''a1'' OPEN None, alert_row ''a2'' OPEN None, alert_row ''a3'' RESOLVED (Some (utf16 ''done''))]"
    by (simp add: update_rows_def three_rows_def alert_row_def)
  have s: "status (alert_row ''a2'' IGNORED None) = IGNORED"
    by (simp add: alert_row_def)
  have o: "(alert_row ''a2'' IGNORED None)\<lparr>status := OPEN\<rparr> = alert_row ''a2'' OPEN None"
    by (simp add: alert_row_def)
  show ?thesis
    using f u s o
      lifecycle_table [of three_rows "''a2''" "alert_row ''a2'' IGNORED None" None "''ARCHIVE''"]
    by simp
qed

text \<open>
  C9 (as amended). When the lookup returns null, each of the four commands of the
  enumeration reads \<^verbatim>\<open>alert.status\<close> of null: a TypeError, neither a conflict nor an
  internal error. A command outside the enumeration reaches the \<^verbatim>\<open>default\<close> branch,
  which reads nothing of the alert and raises the internal error (500).
\<close>

theorem missing_alert:
  "findOne rows alertId = None \<Longrightarrow>
   updateAlert rows alertId updateAlertParams =
     (case updateType updateAlertParams of
        UNKNOWN_UPDATE_TYPE v \<Rightarrow> (Inl (Error500InternalServer ''Unknown update type.''), rows)
      | _ \<Rightarrow> (Inl (TypeError ''alert.status''), rows))"
  by (cases "updateType updateAlertParams") (simp_all add: updateAlert_def switch_updateType_def)

theorem missing_alert_witness:
  "findOne three_rows ''a9'' = None \<and>
   updateAlert three_rows ''a9'' \<lparr>updateType = RESOLVE, resolutionMessage_param = Some (utf16 ''x'')\<rparr> =
     (Inl (TypeError ''alert.status''), three_rows)"
proof -
  have f: "findOne three_rows ''a9'' = None"
    by (simp add: findOne_def three_rows_def alert_row_def)
  show ?thesis
    using f missing_alert [OF f, of "\<lparr>updateType = RESOLVE, resolutionMessage_param = Some (utf16 ''x'')\<rparr>"]
    by simp
qed

text \<open>
  C9 as stated fails for a command outside the enumeration: the missing alert then gives
  the internal error (500), not a null dereference.
\<close>

theorem missing_alert_unknown_command_counterexample:
  "findOne three_rows ''a9'' = None \<and>
   updateAlert three_rows ''a9''
       \<lparr>updateType = UNKNOWN_UPDATE_TYPE ''ARCHIVE'', resolutionMessage_param = None\<rparr> =
     (Inl (Error500InternalServer ''Unknown update type.''), three_rows)"
  by (simp add: updateAlert_def switch_updateType_def findOne_def three_rows_def alert_row_def)

text \<open>
  C4 (as amended). A successful \<^verbatim>\<open>IGNORE\<close>, \<^verbatim>\<open>UNIGNORE\<close> or \<^verbatim>\<open>RESOLVE\<close> of an alert
  that satisfies the invariant returns an alert that satisfies it, and keeps it on every
  row of the repository when every row satisfied it. A successful \<^verbatim>\<open>UNRESOLVE\<close>
  changes the status only, so afterwards the invariant holds exactly when the alert had
  no resolution message.
\<close>

theorem message_invariant_transitions:
  "message_only_when_resolved a \<Longrightarrow> findOne rows alertId = Some a \<Longrightarrow>
   updateAlert rows alertId updateAlertParams = (Inr a', rows') \<Longrightarrow>
   (updateType updateAlertParams \<noteq> UNRESOLVE \<longrightarrow>
      message_only_when_resolved a' \<and>
      ((\<forall>x \<in> set rows. message_only_when_resolved x) \<longrightarrow>
       (\<forall>x \<in> set rows'. message_only_when_resolved x))) \<and>
   (updateType updateAlertParams = UNRESOLVE \<longrightarrow>
      a' = a\<lparr>status := OPEN\<rparr> \<and>
      (message_only_when_resolved a' \<longleftrightarrow> resolutionMessage a = None))"
  by (cases "updateType updateAlertParams"; cases "status a")
    (auto simp add: updateAlert_def switch_updateType_def message_only_when_resolved_def
      update_rows_def split: if_splits)

theorem message_invariant_transitions_witness:
  "message_only_when_resolved (alert_row ''a1'' OPEN None) \<and>
   findOne three_rows ''a1'' = Some (alert_row ''a1'' OPEN None) \<and>
   updateAlert three_rows ''a1'' \<lparr>updateType = IGNORE, resolutionMessage_param = None\<rparr> =
     (Inr (alert_row ''a1'' IGNORED None),
      [alert_row ''a1'' IGNORED None, alert_row ''a2'' IGNORED None,
       alert_row ''a3'' RESOLVED (Some (utf16 ''done''))]) \<and>
   message_only_when_resolved (alert_row ''a1'' IGNORED None)"
proof -
  have i: "message_only_when_resolved (alert_row ''a1'' OPEN None)"
    by (simp add: message_only_when_resolved_def alert_row_def)
  have f: "findOne three_rows ''a1'' = Some (alert_row ''a1'' OPEN None)"
    by (simp add: findOne_def three_rows_def alert_row_def)
  have u: "updateAlert three_rows ''a1'' \<lparr>updateType = IGNORE, resolutionMessage_param = None\<rparr> =
     (Inr (alert_row ''a1'' IGNORED None),
      [alert_row ''a1'' IGNORED None, alert_row ''a2'' IGNORED None,
       alert_row ''a3'' RESOLVED (Some (utf16 ''done''))])"
    by (simp add: updateAlert_def switch_updateType_def findOne_def three_rows_def alert_row_def
        update_rows_def)
  show ?thesis
    using i f u message_invariant_transitions [OF i f u] by simp
qed

text \<open>
  C4 as stated fails: \<^verbatim>\<open>UNRESOLVE\<close> keeps the resolution message of the alert it reopens.
\<close>

theorem unresolve_keeps_message_counterexample:
  "message_only_when_resolved (alert_row ''a3'' RESOLVED (Some (utf16 ''done''))) \<and>
   updateAlert three_rows ''a3'' \<lparr>updateType = UNRESOLVE, resolutionMessage_param = None\<rparr> =
     (Inr (alert_row ''a3'' OPEN (Some (utf16 ''done''))),
      [alert_row ''a1'' OPEN None, alert_row ''a2'' IGNORED None,
       alert_row ''a3'' OPEN (Some (utf16 ''done''))]) \<and>
   \<not> message_only_when_resolved (alert_row ''a3'' OPEN (Some (utf16 ''done'')))"
  by (simp add: updateAlert_def switch_updateType_def findOne_def three_rows_def alert_row_def
      update_rows_def message_only_when_resolved_def)

subsection \<open>The listing\<close>

lemma getAlerts_page_sorted:
  "sorted (map (order_key status_order (order_clause alertParams)) (fst (getAlerts status_order rows alertParams)))"
proof -
  let ?k = "order_key status_order (order_clause alertParams)"
  let ?ordered = "sort_key ?k (filter (whereConditions alertParams) rows)"
  have s: "sorted (map ?k ?ordered)" by (rule sorted_sort_key)
  have d: "sorted (map ?k (drop n ?ordered))" for n
    using s by (simp add: drop_map [symmetric] sorted_wrt_drop del: drop_map)
  have t: "sorted (map ?k (take m (drop n ?ordered)))" for m n
    using d [of n] by (simp add: take_map [symmetric] sorted_wrt_take del: take_map)
  show ?thesis
    by (cases "take_of alertParams") (simp_all add: getAlerts_def findAndCount_def Let_def d t)
qed

lemma order_key_clause:
  "order_key status_order (order_clause alertParams) a =
     [- status_order (status a),
      (case requested_order alertParams of ASC \<Rightarrow> riskScore a | DESC \<Rightarrow> - riskScore a),
      - createdAt a]"
  by (cases alertParams; cases "q_order (the alertParams)")
    (simp_all add: order_key_def order_clause_def orderParams_def optional_chain_def
      column_value_def requested_order_def)

text \<open>
  C3 (as amended). The page \<^verbatim>\<open>getAlerts\<close> returns is ordered by status descending
  first; among alerts of equal status by risk score in the direction the caller asked
  for (descending when none was given); among alerts equal in both by creation time
  descending. So the risk score decides the relative order of two returned alerts only
  when their statuses are equal.
\<close>

theorem getAlerts_order:
  "getAlerts status_order rows alertParams = (page, n) \<Longrightarrow> i < j \<Longrightarrow> j < length page \<Longrightarrow>
   status_order (status (page ! j)) \<le> status_order (status (page ! i)) \<and>
   (status_order (status (page ! i)) = status_order (status (page ! j)) \<longrightarrow>
      in_direction (requested_order alertParams) (riskScore (page ! i)) (riskScore (page ! j)) \<and>
      (riskScore (page ! i) = riskScore (page ! j) \<longrightarrow> createdAt (page ! j) \<le> createdAt (page ! i)))"
proof -
  assume g: "getAlerts status_order rows alertParams = (page, n)" and ij: "i < j" "j < length page"
  let ?k = "order_key status_order (order_clause alertParams)"
  have "sorted (map ?k page)" using getAlerts_page_sorted [of status_order alertParams rows] g by simp
  then have "?k (page ! i) \<le> ?k (page ! j)"
    using ij by (simp add: sorted_iff_nth_mono_less)
  then show ?thesis
    by (cases "requested_order alertParams")
      (auto simp add: order_key_clause in_direction_def)
qed


lemma getAlerts_listing_rows:
  "getAlerts open_first listing_rows None =
     ([scored_row ''b'' OPEN 3 1, scored_row ''a'' OPEN 1 5, scored_row ''c'' RESOLVED 3 9], 3)"
  by (simp add: getAlerts_def findAndCount_def whereConditions_def skip_of_def take_of_def
      order_key_clause requested_order_def optional_chain_def listing_rows_def scored_row_def
      open_first_def)

theorem getAlerts_order_witness:
  "getAlerts open_first listing_rows None =
     ([scored_row ''b'' OPEN 3 1, scored_row ''a'' OPEN 1 5, scored_row ''c'' RESOLVED 3 9], 3) \<and>
   (0::nat) < 1 \<and>
   1 < length [scored_row ''b'' OPEN 3 1, scored_row ''a'' OPEN 1 5, scored_row ''c'' RESOLVED 3 9] \<and>
   in_direction DESC
     (riskScore ([scored_row ''b'' OPEN 3 1, scored_row ''a'' OPEN 1 5, scored_row ''c'' RESOLVED 3 9] ! 0))
     (riskScore ([scored_row ''b'' OPEN 3 1, scored_row ''a'' OPEN 1 5, scored_row ''c'' RESOLVED 3 9] ! 1))"
proof -
  have l: "(0::nat) < 1" by simp
  have m: "1 < length [scored_row ''b'' OPEN 3 1, scored_row ''a'' OPEN 1 5, scored_row ''c'' RESOLVED 3 9]"
    by simp
  show ?thesis
    using getAlerts_listing_rows l m getAlerts_order [OF getAlerts_listing_rows l m]
    by (simp add: requested_order_def scored_row_def)
qed

text \<open>
  C3 as stated fails: with the default order, an alert of lower risk score precedes one
  of higher risk score when its status comes first, whichever way the database orders
  the statuses.
\<close>

theorem status_before_risk_counterexample:
  "getAlerts open_first [scored_row ''r'' RESOLVED 3 10, scored_row ''o'' OPEN 1 20] None =
     ([scored_row ''o'' OPEN 1 20, scored_row ''r'' RESOLVED 3 10], 2) \<and>
   getAlerts open_last [scored_row ''o'' OPEN 3 20, scored_row ''r'' RESOLVED 1 10] None =
     ([scored_row ''r'' RESOLVED 1 10, scored_row ''o'' OPEN 3 20], 2)"
  by (simp add: getAlerts_def findAndCount_def whereConditions_def skip_of_def take_of_def
      order_key_clause requested_order_def optional_chain_def scored_row_def
      open_first_def open_last_def)

subsection \<open>Deduplication in the batch constructors\<close>

























lemmas example_defs =
  example_repository_def repository_of_def stored_alert_def header_field_def example_common_def
  example_trace_def example_endpoint_def example_libraries_def example_spec_def hsts_draft_def

lemmas loop_defs =
  dataFieldBody_def scanRequestHeaders.simps pushUnlessExisting_def existingUnresolvedAlert_def
  isBasicAuthHeader_def toLowerCase_def lowerCaseLetter_def optional_chain_def
  basicAuthDescription_def newAlert_def hstsBody_def specDiffBody_def resolveLocation_def
  lineNumberOf_def initialSpecDiffState_def Let_def property_is_truthy_def
  Object_prototype_properties_def pathKeyOf_def js_slice_def

lemma example_split_lines: "splitLines example_json_text = example_json_lines"
  by (simp add: example_json_text_def example_json_lines_def)







subsection \<open>Basic authentication\<close>

text \<open>\<open>js_includes\<close> is the substring test.\<close>

lemma startsWith_iff: "startsWith s sub \<longleftrightarrow> (\<exists>post. s = sub @ post)"
  by (induction s sub rule: startsWith.induct) auto

lemma js_includes_iff: "js_includes s sub \<longleftrightarrow> (\<exists>pre post. s = pre @ sub @ post)"
proof (induction s)
  case Nil
  then show ?case by simp
next
  case (Cons c cs)
  show ?case
  proof
    assume "js_includes (c # cs) sub"
    then consider "startsWith (c # cs) sub" | "js_includes cs sub" by auto
    then show "\<exists>pre post. c # cs = pre @ sub @ post"
    proof cases
      case 1
      then obtain post where "c # cs = sub @ post" by (auto simp add: startsWith_iff)
      then have "c # cs = [] @ sub @ post" by simp
      then show ?thesis by blast
    next
      case 2
      then obtain pre post where "cs = pre @ sub @ post" using Cons.IH by blast
      then have "c # cs = (c # pre) @ sub @ post" by simp
      then show ?thesis by blast
    qed
  next
    assume "\<exists>pre post. c # cs = pre @ sub @ post"
    then obtain pre post where e: "c # cs = pre @ sub @ post" by blast
    show "js_includes (c # cs) sub"
    proof (cases pre)
      case Nil
      with e have "startsWith (c # cs) sub" by (auto simp add: startsWith_iff)
      then show ?thesis by simp
    next
      case (Cons p pre')
      with e have "cs = pre' @ sub @ post" by simp
      then have "js_includes cs sub" using Cons.IH by blast
      then show ?thesis by simp
    qed
  qed
qed


















subsection \<open>The accumulator of createDataFieldAlerts\<close>










subsection \<open>Exceptions in the batch constructors\<close>

text \<open>
  C6. An exception raised in the loop of \<^verbatim>\<open>createDataFieldAlerts\<close>,
  \<^verbatim>\<open>createSpecDiffAlerts\<close> or \<^verbatim>\<open>createMissingHSTSAlert\<close> is caught in the call, which
  returns the empty list. The three functions are total in the model: whatever happens
  in the loop, the call returns a list and raises nothing.
\<close>

theorem batch_exceptions_caught:
  "(fst (forEach (dataFieldBody cm repo ep path tr) dfs (initial_alerts h sda)) = Some e \<longrightarrow>
      returned_alerts (createDataFieldAlerts cm repo h (Some dfs) ep path tr sda) = []) \<and>
   (fst (forEach (specDiffBody lib cm repo queryRunner ep tr) items (initialSpecDiffState openApiSpec)) = Some e \<longrightarrow>
      fst (createSpecDiffAlerts lib cm repo queryRunner (Some items) ep tr openApiSpec) = []) \<and>
   (fst (forEach (hstsBody cm repo) props []) = Some e \<longrightarrow>
      createMissingHSTSAlert cm repo (Some props) = [])"
proof (intro conjI impI)
  assume a: "fst (forEach (dataFieldBody cm repo ep path tr) dfs (initial_alerts h sda)) = Some e"
  then obtain pushed where
    run: "forEach (dataFieldBody cm repo ep path tr) dfs (initial_alerts h sda) = (Some e, pushed)"
    by (cases "forEach (dataFieldBody cm repo ep path tr) dfs (initial_alerts h sda)") simp
  show "returned_alerts (createDataFieldAlerts cm repo h (Some dfs) ep path tr sda) = []"
    using run
    by (cases sda)
      (simp_all add: createDataFieldAlerts_def newArray_def initial_alerts_def returned_alerts_def
        nth_append)
next
  assume a: "fst (forEach (specDiffBody lib cm repo queryRunner ep tr) items
      (initialSpecDiffState openApiSpec)) = Some e"
  then obtain st where run: "forEach (specDiffBody lib cm repo queryRunner ep tr) items
      (initialSpecDiffState openApiSpec) = (Some e, st)"
    by (cases "forEach (specDiffBody lib cm repo queryRunner ep tr) items
      (initialSpecDiffState openApiSpec)") simp
  show "fst (createSpecDiffAlerts lib cm repo queryRunner (Some items) ep tr openApiSpec) = []"
    using run by (simp add: createSpecDiffAlerts_def Let_def)
next
  assume a: "fst (forEach (hstsBody cm repo) props []) = Some e"
  then obtain out where run: "forEach (hstsBody cm repo) props [] = (Some e, out)"
    by (cases "forEach (hstsBody cm repo) props []") simp
  show "createMissingHSTSAlert cm repo (Some props) = []"
    using run by (simp add: createMissingHSTSAlert_def)
qed

lemma unavailable_dataFields_run:
  "fst (forEach (dataFieldBody example_common unavailable_repository ''e1'' ''/login'' (Some example_trace))
     [header_field] (initial_alerts [] None)) = Some (QueryFailedError ''findOneBy'')"
  by (simp add: example_defs loop_defs unavailable_repository_def initial_alerts_def)

lemma unavailable_specDiff_run:
  "fst (forEach (specDiffBody example_libraries example_common unavailable_repository (\<lambda>name c. None)
          ''e1'' (Some example_trace)) [(''k1'', [''paths''])]
          (initialSpecDiffState (example_spec JSON))) = Some (QueryFailedError ''findOneBy'')"
  by (simp add: example_defs loop_defs unavailable_repository_def)

lemma unavailable_hsts_run:
  "fst (forEach (hstsBody example_common unavailable_repository)
     [(example_endpoint, example_trace, ''No HSTS header'')] []) = Some (QueryFailedError ''findOneBy'')"
  by (simp add: example_defs loop_defs unavailable_repository_def)

theorem batch_exceptions_caught_witness:
  "returned_alerts
     (createDataFieldAlerts example_common unavailable_repository [] (Some [header_field])
        ''e1'' ''/login'' (Some example_trace) None) = [] \<and>
   fst (createSpecDiffAlerts example_libraries example_common unavailable_repository (\<lambda>name c. None)
          (Some [(''k1'', [''paths''])]) ''e1'' (Some example_trace) (example_spec JSON)) = [] \<and>
   createMissingHSTSAlert example_common unavailable_repository
     (Some [(example_endpoint, example_trace, ''No HSTS header'')]) = []"
proof -
  note caught = batch_exceptions_caught [of example_common unavailable_repository "''e1''" "''/login''"
      "Some example_trace" "[header_field]" "[]" None "QueryFailedError ''findOneBy''"
      example_libraries "\<lambda>name c. None" "[(''k1'', [''paths''])]" "example_spec JSON"
      "[(example_endpoint, example_trace, ''No HSTS header'')]"]
  show ?thesis
    using caught [THEN conjunct1, THEN mp, OF unavailable_dataFields_run]
      caught [THEN conjunct2, THEN conjunct1, THEN mp, OF unavailable_specDiff_run]
      caught [THEN conjunct2, THEN conjunct2, THEN mp, OF unavailable_hsts_run]
    by (simp only: simp_thms)
qed

subsection \<open>The cache of specification locations\<close>

lemma forEach_invariant:
  "(\<And>x s. x \<in> set xs \<Longrightarrow> I s \<Longrightarrow> I (snd (body x s))) \<Longrightarrow> I s \<Longrightarrow> I (snd (forEach body xs s))"
proof (induction xs arbitrary: s)
  case Nil
  then show ?case by simp
next
  case (Cons x xs)
  obtain r s1 where b: "body x s = (r, s1)" by (cases "body x s")
  have s1: "I s1" using Cons.prems(1) [of x s] Cons.prems(2) b by simp
  show ?case
  proof (cases r)
    case None
    have "I (snd (forEach body xs s1))" using Cons.IH [of s1] Cons.prems(1) s1 by simp
    with b None show ?thesis by simp
  next
    case (Some e)
    with b s1 show ?thesis by simp
  qed
qed

lemma resolveLocation_truthy:
  "property_is_truthy (minimizedSpecContext (openApiSpec_now st)) (join ''.'' pathPointer) \<Longrightarrow>
   resolveLocation lib pathPointer st = (None, st)"
  by (simp add: resolveLocation_def Let_def)

lemma resolveLocation_hit:
  "minimizedSpecContext (openApiSpec_now st) (join ''.'' pathPointer) = Some cached \<Longrightarrow>
   resolveLocation lib pathPointer st = (None, st)"
  by (rule resolveLocation_truthy) (simp add: property_is_truthy_def)

lemma resolveLocation_inherited_key:
  "join ''.'' pathPointer \<in> set Object_prototype_properties \<Longrightarrow>
   resolveLocation lib pathPointer st = (None, st)"
  by (rule resolveLocation_truthy) (simp add: property_is_truthy_def)

lemma resolveLocation_parses_once:
  "resolveLocation lib pathPointer st = (r, st1) \<Longrightarrow> parse_count st1 \<le> parse_count st + 1"
  by (auto simp add: resolveLocation_def Let_def split: option.splits sum.splits if_splits)

text \<open>
  A resolution on a miss that ends without an exception: it writes an entry exactly
  when the line it computed is a number other than 0, and otherwise changes nothing but
  the number of parses.
\<close>

lemma resolveLocation_miss:
  assumes miss: "\<not> property_is_truthy (minimizedSpecContext (openApiSpec_now st)) (join ''.'' pathPointer)"
    and run: "resolveLocation lib pathPointer st = (None, st1)"
  shows "(minimizedSpecContext (openApiSpec_now st1) (join ''.'' pathPointer) \<noteq> None \<longleftrightarrow>
            (\<exists>l. lineNumberOf lib (openApiSpec_now st) pathPointer = Inr (Some l) \<and> l \<noteq> 0)) \<and>
         (minimizedSpecContext (openApiSpec_now st1) (join ''.'' pathPointer) = None \<longrightarrow>
            st1 = st\<lparr>parse_count := parse_count st +
                    (if extension (openApiSpec_now st) = JSON \<or> extension (openApiSpec_now st) = YAML
                     then 1 else 0)\<rparr>)"
proof -
  have none: "minimizedSpecContext (openApiSpec_now st) (join ''.'' pathPointer) = None"
    using miss by (simp add: property_is_truthy_def)
  show ?thesis
  proof (cases "lineNumberOf lib (openApiSpec_now st) pathPointer")
    case (Inl e)
    with miss run show ?thesis by (simp add: resolveLocation_def Let_def)
  next
    case (Inr line)
    show ?thesis
    proof (cases line)
      case None
      with Inr miss run none show ?thesis by (auto simp add: resolveLocation_def Let_def)
    next
      case (Some l)
      with Inr miss run none show ?thesis
        by (cases "l = 0") (auto simp add: resolveLocation_def Let_def)
    qed
  qed
qed

lemma specDiffBody_hit:
  assumes hit: "minimizedSpecContext (openApiSpec_now st) (join ''.'' (snd item)) \<noteq> None"
  shows "parse_count (snd (specDiffBody lib cm repo queryRunner ep tr item st)) = parse_count st \<and>
         openApiSpec_now (snd (specDiffBody lib cm repo queryRunner ep tr item st)) = openApiSpec_now st"
proof -
  obtain key pathPointer where item: "item = (key, pathPointer)" by (cases item)
  from hit item obtain cached where
    "minimizedSpecContext (openApiSpec_now st) (join ''.'' pathPointer) = Some cached"
    by auto
  then have "resolveLocation lib pathPointer st = (None, st)" by (rule resolveLocation_hit)
  then show ?thesis
    by (simp add: specDiffBody_def item split: sum.splits option.splits)
qed

text \<open>
  C8 (as amended). When \<^verbatim>\<open>minimizedSpecContext\<close> holds an entry for the key of a pointer
  (its segments joined with a dot), the resolution of that pointer parses nothing,
  raises nothing and leaves the state, the cached entry included, as it was; a call of
  \<^verbatim>\<open>createSpecDiffAlerts\<close> all of whose pointers have entries never parses the text and
  leaves the specification object unchanged. A resolution on a miss writes an entry
  only when it computes a line other than 0. So of two resolutions of the same pointer
  the second changes nothing, and the text is parsed at most once, when the first has
  left an entry; when the first has left none, it has changed nothing but the number of
  parses, and the second repeats it, parsing a JSON or YAML text once more.
\<close>

theorem spec_location_cache:
  "(minimizedSpecContext (openApiSpec_now st) (join ''.'' pathPointer) = Some cached \<longrightarrow>
      resolveLocation lib pathPointer st = (None, st)) \<and>
   ((\<forall>item \<in> set items.
       minimizedSpecContext openApiSpec (join ''.'' (snd item)) \<noteq> None) \<longrightarrow>
      parse_count (snd (createSpecDiffAlerts lib cm repo queryRunner (Some items) ep tr openApiSpec)) = 0 \<and>
      openApiSpec_now (snd (createSpecDiffAlerts lib cm repo queryRunner (Some items) ep tr openApiSpec)) =
        openApiSpec) \<and>
   (\<not> property_is_truthy (minimizedSpecContext (openApiSpec_now st)) (join ''.'' pathPointer) \<and>
    resolveLocation lib pathPointer st = (None, st1) \<longrightarrow>
      (minimizedSpecContext (openApiSpec_now st1) (join ''.'' pathPointer) \<noteq> None \<longleftrightarrow>
         (\<exists>l. lineNumberOf lib (openApiSpec_now st) pathPointer = Inr (Some l) \<and> l \<noteq> 0))) \<and>
   (resolveLocation lib pathPointer st = (None, st1) \<and>
    minimizedSpecContext (openApiSpec_now st1) (join ''.'' pathPointer) = Some cached \<longrightarrow>
      resolveLocation lib pathPointer st1 = (None, st1) \<and> parse_count st1 \<le> parse_count st + 1) \<and>
   (\<not> property_is_truthy (minimizedSpecContext (openApiSpec_now st)) (join ''.'' pathPointer) \<and>
    resolveLocation lib pathPointer st = (None, st1) \<and>
    minimizedSpecContext (openApiSpec_now st1) (join ''.'' pathPointer) = None \<longrightarrow>
      openApiSpec_now st1 = openApiSpec_now st \<and>
      parse_count st1 = parse_count st +
        (if extension (openApiSpec_now st) = JSON \<or> extension (openApiSpec_now st) = YAML then 1 else 0) \<and>
      resolveLocation lib pathPointer st1 =
        (None, st1\<lparr>parse_count := parse_count st1 +
           (if extension (openApiSpec_now st) = JSON \<or> extension (openApiSpec_now st) = YAML
            then 1 else 0)\<rparr>))"
proof (intro conjI impI)
  assume "minimizedSpecContext (openApiSpec_now st) (join ''.'' pathPointer) = Some cached"
  then show "resolveLocation lib pathPointer st = (None, st)" by (rule resolveLocation_hit)
next
  assume a: "\<forall>item \<in> set items.
       minimizedSpecContext openApiSpec (join ''.'' (snd item)) \<noteq> None"
  let ?I = "\<lambda>s. parse_count s = 0 \<and> openApiSpec_now s = openApiSpec"
  let ?final = "snd (forEach (specDiffBody lib cm repo queryRunner ep tr) items
                   (initialSpecDiffState openApiSpec))"
  have "?I ?final"
  proof (rule forEach_invariant [where I = ?I])
    show "?I (initialSpecDiffState openApiSpec)" by (simp add: initialSpecDiffState_def)
  next
    fix x :: "string \<times> string list" and s :: SpecDiffState
    assume x: "x \<in> set items" and s: "?I s"
    then have "minimizedSpecContext (openApiSpec_now s) (join ''.'' (snd x)) \<noteq> None"
      using a by simp
    from specDiffBody_hit [OF this, of lib cm repo queryRunner ep tr] s
    show "?I (snd (specDiffBody lib cm repo queryRunner ep tr x s))" by simp
  qed
  moreover have "snd (createSpecDiffAlerts lib cm repo queryRunner (Some items) ep tr openApiSpec) = ?final"
    by (cases items)
      (auto simp add: createSpecDiffAlerts_def Let_def split: prod.splits option.splits)
  ultimately show
    "parse_count (snd (createSpecDiffAlerts lib cm repo queryRunner (Some items) ep tr openApiSpec)) = 0"
    "openApiSpec_now (snd (createSpecDiffAlerts lib cm repo queryRunner (Some items) ep tr openApiSpec)) =
        openApiSpec"
    by simp_all
next
  assume a: "\<not> property_is_truthy (minimizedSpecContext (openApiSpec_now st)) (join ''.'' pathPointer) \<and>
    resolveLocation lib pathPointer st = (None, st1)"
  then show "minimizedSpecContext (openApiSpec_now st1) (join ''.'' pathPointer) \<noteq> None \<longleftrightarrow>
         (\<exists>l. lineNumberOf lib (openApiSpec_now st) pathPointer = Inr (Some l) \<and> l \<noteq> 0)"
    using resolveLocation_miss [of st pathPointer lib st1] by blast
next
  assume a: "resolveLocation lib pathPointer st = (None, st1) \<and>
    minimizedSpecContext (openApiSpec_now st1) (join ''.'' pathPointer) = Some cached"
  then show "resolveLocation lib pathPointer st1 = (None, st1)" by (simp add: resolveLocation_hit)
  from a have "resolveLocation lib pathPointer st = (None, st1)" by simp
  then show "parse_count st1 \<le> parse_count st + 1" by (rule resolveLocation_parses_once)
next
  assume a: "\<not> property_is_truthy (minimizedSpecContext (openApiSpec_now st)) (join ''.'' pathPointer) \<and>
    resolveLocation lib pathPointer st = (None, st1) \<and>
    minimizedSpecContext (openApiSpec_now st1) (join ''.'' pathPointer) = None"
  let ?k = "if extension (openApiSpec_now st) = JSON \<or> extension (openApiSpec_now st) = YAML
            then 1 else (0::nat)"
  have st1: "st1 = st\<lparr>parse_count := parse_count st + ?k\<rparr>"
    using a resolveLocation_miss [of st pathPointer lib st1] by blast
  show "openApiSpec_now st1 = openApiSpec_now st" by (simp add: st1)
  show "parse_count st1 = parse_count st + ?k" by (simp add: st1)
  have run: "resolveLocation lib pathPointer st = (None, st\<lparr>parse_count := parse_count st + ?k\<rparr>)"
    using a st1 by simp
  have miss: "\<not> property_is_truthy (minimizedSpecContext (openApiSpec_now st)) (join ''.'' pathPointer)"
    using a by simp
  have "resolveLocation lib pathPointer (st\<lparr>parse_count := parse_count st + ?k\<rparr>) =
      (None, st\<lparr>parse_count := parse_count st + ?k + ?k\<rparr>)"
  proof (cases "lineNumberOf lib (openApiSpec_now st) pathPointer")
    case (Inl e)
    with miss run show ?thesis by (simp add: resolveLocation_def Let_def)
  next
    case (Inr line)
    show ?thesis
    proof (cases line)
      case None
      with Inr miss show ?thesis by (simp add: resolveLocation_def Let_def)
    next
      case (Some l)
      show ?thesis
      proof (cases "l = 0")
        case True
        with Some Inr miss show ?thesis by (simp add: resolveLocation_def Let_def)
      next
        case False
        have "minimizedSpecContext (openApiSpec_now st1) (join ''.'' pathPointer) \<noteq> None"
          using resolveLocation_miss [of st pathPointer lib st1] a Some Inr False by blast
        with a show ?thesis by simp
      qed
    qed
  qed
  then show "resolveLocation lib pathPointer st1 =
        (None, st1\<lparr>parse_count := parse_count st1 + ?k\<rparr>)"
    by (simp add: st1)
qed

lemma example_first_resolution:
  "resolveLocation example_libraries [''paths''] (initialSpecDiffState (example_spec JSON)) =
     (None, cached_state)"
  by (simp add: resolveLocation_def lineNumberOf_def Let_def initialSpecDiffState_def
      example_spec_def example_libraries_def pathKeyOf_def js_slice_def cached_state_def
      cached_location_def property_is_truthy_def Object_prototype_properties_def
      example_split_lines example_json_lines_def)

lemma example_cache_entry:
  "minimizedSpecContext (openApiSpec_now cached_state) (join ''.'' [''paths'']) =
     Some cached_location"
  by (simp add: cached_state_def)

lemma example_miss:
  "\<not> property_is_truthy (minimizedSpecContext (openApiSpec_now (uncached_state n)))
       (join ''.'' [''paths'', ''/users''])"
  by (simp add: uncached_state_def initialSpecDiffState_def example_spec_def
      property_is_truthy_def Object_prototype_properties_def)

lemma example_missed_resolution:
  "resolveLocation example_libraries [''paths'', ''/users''] (uncached_state n) =
     (None, uncached_state (n + 1))"
  by (simp add: resolveLocation_def lineNumberOf_def Let_def initialSpecDiffState_def
      example_spec_def example_libraries_def pathKeyOf_def uncached_state_def
      property_is_truthy_def Object_prototype_properties_def)

lemma example_same_pointer_twice:
  "parse_count (snd (createSpecDiffAlerts example_libraries example_common (repository_of [])
       (\<lambda>name c. None) (Some [(''k1'', [''paths'']), (''k2'', [''paths''])]) ''e1''
       (Some example_trace) (example_spec JSON))) = 1"
  by (simp add: createSpecDiffAlerts_def specDiffBody_def existingUnresolvedAlert_def
      resolveLocation_def lineNumberOf_def Let_def initialSpecDiffState_def repository_of_def
      example_spec_def example_libraries_def pathKeyOf_def js_slice_def
      property_is_truthy_def Object_prototype_properties_def)

theorem spec_location_cache_witness:
  "minimizedSpecContext (openApiSpec_now cached_state) (join ''.'' [''paths'']) =
     Some cached_location \<and>
   resolveLocation example_libraries [''paths''] (initialSpecDiffState (example_spec JSON)) =
     (None, cached_state) \<and>
   resolveLocation example_libraries [''paths''] cached_state = (None, cached_state) \<and>
   parse_count cached_state \<le> parse_count (initialSpecDiffState (example_spec JSON)) + 1 \<and>
   parse_count (snd (createSpecDiffAlerts example_libraries example_common (repository_of [])
       (\<lambda>name c. None) (Some [(''k1'', [''paths'']), (''k2'', [''paths''])]) ''e1''
       (Some example_trace) (openApiSpec_now cached_state))) = 0 \<and>
   openApiSpec_now (snd (createSpecDiffAlerts example_libraries example_common (repository_of [])
       (\<lambda>name c. None) (Some [(''k1'', [''paths'']), (''k2'', [''paths''])]) ''e1''
       (Some example_trace) (openApiSpec_now cached_state))) = openApiSpec_now cached_state \<and>
   resolveLocation example_libraries [''paths'', ''/users''] (uncached_state 0) =
     (None, uncached_state 1) \<and>
   minimizedSpecContext (openApiSpec_now (uncached_state 1)) (join ''.'' [''paths'', ''/users'']) = None \<and>
   openApiSpec_now (uncached_state 1) = openApiSpec_now (uncached_state 0) \<and>
   parse_count (uncached_state 1) = parse_count (uncached_state 0) + 1 \<and>
   resolveLocation example_libraries [''paths'', ''/users''] (uncached_state 1) =
     (None, (uncached_state 1)\<lparr>parse_count := parse_count (uncached_state 1) + 1\<rparr>)"
proof -
  note cached = spec_location_cache [of "initialSpecDiffState (example_spec JSON)" "[''paths'']"
      cached_location example_libraries "[(''k1'', [''paths'']), (''k2'', [''paths''])]"
      "openApiSpec_now cached_state" example_common "repository_of []" "\<lambda>name c. None" "''e1''"
      "Some example_trace" cached_state]
  note hit = spec_location_cache [of cached_state "[''paths'']" cached_location example_libraries
      "[]" "openApiSpec_now cached_state" example_common "repository_of []"
      "\<lambda>name c. None" "''e1''" "Some example_trace" cached_state]
  note missed = spec_location_cache [of "uncached_state 0" "[''paths'', ''/users'']"
      cached_location example_libraries "[]" "openApiSpec_now cached_state" example_common
      "repository_of []" "\<lambda>name c. None" "''e1''" "Some example_trace" "uncached_state 1"]
  have first_miss: "resolveLocation example_libraries [''paths'', ''/users''] (uncached_state 0) =
      (None, uncached_state 1)"
    using example_missed_resolution [of 0] by simp
  have no_entry: "minimizedSpecContext (openApiSpec_now (uncached_state 1))
      (join ''.'' [''paths'', ''/users'']) = None"
    by (simp add: uncached_state_def initialSpecDiffState_def example_spec_def)
  have json: "extension (openApiSpec_now (uncached_state 0)) = JSON"
    by (simp add: uncached_state_def initialSpecDiffState_def example_spec_def)
  have h2: "\<forall>item \<in> set [(''k1'', [''paths'']), (''k2'', [''paths''])].
      minimizedSpecContext (openApiSpec_now cached_state) (join ''.'' (snd item)) \<noteq> None"
    by (simp add: cached_state_def)
  have h4: "resolveLocation example_libraries [''paths''] (initialSpecDiffState (example_spec JSON)) =
        (None, cached_state) \<and>
      minimizedSpecContext (openApiSpec_now cached_state) (join ''.'' [''paths'']) =
        Some cached_location"
    using example_first_resolution example_cache_entry by simp
  have h5: "\<not> property_is_truthy (minimizedSpecContext (openApiSpec_now (uncached_state 0)))
        (join ''.'' [''paths'', ''/users'']) \<and>
      resolveLocation example_libraries [''paths'', ''/users''] (uncached_state 0) =
        (None, uncached_state 1) \<and>
      minimizedSpecContext (openApiSpec_now (uncached_state 1)) (join ''.'' [''paths'', ''/users'']) = None"
    using example_miss [of 0] first_miss no_entry by simp
  show ?thesis
    using example_cache_entry example_first_resolution first_miss no_entry
      hit [THEN conjunct1, THEN mp, OF example_cache_entry]
      cached [THEN conjunct2, THEN conjunct1, THEN mp, OF h2]
      cached [THEN conjunct2, THEN conjunct2, THEN conjunct2, THEN conjunct1, THEN mp, OF h4]
      missed [THEN conjunct2, THEN conjunct2, THEN conjunct2, THEN conjunct2, THEN mp, OF h5]
    by (simp only: json simp_thms if_True)
qed

text \<open>
  C8 as stated fails: a pointer that the specification text does not contain is looked
  up, nothing is cached, and the next resolution of the same pointer on the same text
  parses the text again, in two successive resolutions as in one call with two keys
  for that pointer.
\<close>

theorem uncached_pointer_parsed_twice_counterexample:
  "resolveLocation example_libraries [''paths'', ''/users''] (uncached_state 0) =
     (None, uncached_state 1) \<and>
   resolveLocation example_libraries [''paths'', ''/users''] (uncached_state 1) =
     (None, uncached_state 2) \<and>
   parse_count (uncached_state 0) = 0 \<and> parse_count (uncached_state 2) = 2 \<and>
   parse_count (snd (createSpecDiffAlerts example_libraries example_common (repository_of [])
       (\<lambda>name c. None) (Some [(''k1'', [''paths'', ''/users'']), (''k2'', [''paths'', ''/users''])])
       ''e1'' (Some example_trace) (example_spec JSON))) = 2"
proof -
  have "parse_count (snd (createSpecDiffAlerts example_libraries example_common (repository_of [])
       (\<lambda>name c. None) (Some [(''k1'', [''paths'', ''/users'']), (''k2'', [''paths'', ''/users''])])
       ''e1'' (Some example_trace) (example_spec JSON))) = 2"
    by (simp add: createSpecDiffAlerts_def specDiffBody_def existingUnresolvedAlert_def
        resolveLocation_def lineNumberOf_def Let_def initialSpecDiffState_def repository_of_def
        example_spec_def example_libraries_def pathKeyOf_def
        property_is_truthy_def Object_prototype_properties_def)
  then show ?thesis
    using example_missed_resolution [of 0] example_missed_resolution [of 1]
    by (simp add: uncached_state_def)
qed

end
